theory Spec2Isabelle
  imports Main "HOL-Library.Word"
begin

section \<open>Go standard library string operations used by the handler\<close>

text \<open>
  Go strings are byte sequences; they are modelled as \<open>string\<close> (a list of \<open>char\<close>).
  The helpers below follow package \<open>strings\<close>:
  \<^verbatim>\<open>HasPrefix(s, p) = len(s) >= len(p) && s[:len(p)] == p\<close>,
  \<^verbatim>\<open>HasSuffix(s, x) = len(s) >= len(x) && s[len(s)-len(x):] == x\<close>,
  \<^verbatim>\<open>TrimPrefix(s, p) = if HasPrefix(s, p) { s[len(p):] } else { s }\<close>.
\<close>

definition HasPrefix :: "string \<Rightarrow> string \<Rightarrow> bool" where
  "HasPrefix s p = (length p \<le> length s \<and> take (length p) s = p)"

definition HasSuffix :: "string \<Rightarrow> string \<Rightarrow> bool" where
  "HasSuffix s x = (length x \<le> length s \<and> drop (length s - length x) s = x)"

definition TrimPrefix :: "string \<Rightarrow> string \<Rightarrow> string" where
  "TrimPrefix s p = (if HasPrefix s p then drop (length p) s else s)"

text \<open>
  \<^verbatim>\<open>strings.Index(s, sep)\<close>: the position of the first occurrence of \<open>sep\<close> in \<open>s\<close>;
  Go's \<open>-1\<close> is \<open>None\<close>.
\<close>

fun Index :: "string \<Rightarrow> string \<Rightarrow> nat option" where
  "Index [] sep = (if sep = [] then Some 0 else None)"
| "Index (c # cs) sep =
     (if HasPrefix (c # cs) sep then Some 0 else map_option Suc (Index cs sep))"

text \<open>\<^verbatim>\<open>strings.Contains(s, substr) = Index(s, substr) >= 0\<close>.\<close>

definition Contains :: "string \<Rightarrow> string \<Rightarrow> bool" where
  "Contains s substr = (Index s substr \<noteq> None)"

text \<open>
  The splitting loop of \<^verbatim>\<open>strings.genSplit\<close> for a non-empty separator:
  \<^verbatim>\<open>
  for i < n {
      m := Index(s, sep)
      if m < 0 { break }
      a[i] = s[:m]
      s = s[m+len(sep):]
      i++
  }
  a[i] = s
  \<close>
  The argument \<open>k\<close> is the number of iterations still allowed (\<open>n - i\<close>).
\<close>

fun genSplit :: "string \<Rightarrow> string \<Rightarrow> nat \<Rightarrow> string list" where
  "genSplit s sep 0 = [s]"
| "genSplit s sep (Suc k) =
     (case Index s sep of
        None \<Rightarrow> [s]
      | Some m \<Rightarrow> take m s # genSplit (drop (m + length sep) s) sep k)"

text \<open>
  \<^verbatim>\<open>strings.SplitN(s, sep, n)\<close> for \<open>n \<ge> 0\<close> and a non-empty \<open>sep\<close> (the handler only
  splits on \<open>"/"\<close>): \<open>n = 0\<close> gives no substrings, otherwise at most \<open>n\<close> substrings,
  the last one being the unsplit remainder.
\<close>

definition SplitN :: "string \<Rightarrow> string \<Rightarrow> nat \<Rightarrow> string list" where
  "SplitN s sep n = (if n = 0 then [] else genSplit s sep (n - 1))"

section \<open>Bucket/key mapping for custom domains\<close>

text \<open>
  \<^verbatim>\<open>
  func determineBucketAndObjectKey(root, urlPath string) (bucket, key string) {
      parts := strings.SplitN(root, "/", 2)
      bucket = parts[0]
      prefix := ""
      if len(parts) > 1 { prefix = parts[1] }
      if prefix != "" && !strings.HasSuffix(prefix, "/") { prefix += "/" }
      return bucket, prefix + strings.TrimPrefix(urlPath, "/")
  }
  \<close>
  \<open>SplitN\<close> with \<open>n = 2\<close> always returns at least one element, so \<open>parts[0]\<close> is in range;
  the model's \<open>[]\<close> case is unreachable (lemma \<open>SplitN_two_cases\<close>).
\<close>

definition determineBucketAndObjectKey :: "string \<Rightarrow> string \<Rightarrow> string \<times> string" where
  "determineBucketAndObjectKey root urlPath =
     (let parts = SplitN root ''/'' 2;
          bucket = (case parts of [] \<Rightarrow> [] | b # _ \<Rightarrow> b);
          prefix0 = (if length parts > 1 then parts ! 1 else []);
          prefix = (if prefix0 \<noteq> [] \<and> \<not> HasSuffix prefix0 ''/'' then prefix0 @ ''/'' else prefix0)
      in (bucket, prefix @ TrimPrefix urlPath ''/''))"

text \<open>
  The mapping as the specification words it: split \<open>root\<close> at its first \<open>/\<close> into bucket
  and rest, close a non-empty rest with \<open>/\<close>, strip one leading \<open>/\<close> from the URL path.
\<close>

definition spec_bucket :: "string \<Rightarrow> string" where
  "spec_bucket root = takeWhile (\<lambda>c. c \<noteq> CHR ''/'') root"

definition spec_rest :: "string \<Rightarrow> string" where
  "spec_rest root = (if CHR ''/'' \<in> set root then tl (dropWhile (\<lambda>c. c \<noteq> CHR ''/'') root) else [])"

definition spec_prefix :: "string \<Rightarrow> string" where
  "spec_prefix root =
     (let rest = spec_rest root
      in if rest \<noteq> [] \<and> last rest \<noteq> CHR ''/'' then rest @ ''/'' else rest)"

definition spec_suffix :: "string \<Rightarrow> string" where
  "spec_suffix urlPath = (case urlPath of [] \<Rightarrow> [] | c # cs \<Rightarrow> if c = CHR ''/'' then cs else c # cs)"

text \<open>
  \<^verbatim>\<open>strings.Count(s, substr)\<close> for a non-empty \<open>substr\<close>: the number of non-overlapping
  occurrences,
  \<^verbatim>\<open>
  n := 0
  for {
      i := Index(s, substr)
      if i == -1 { return n }
      n++
      s = s[i+len(substr):]
  }
  \<close>
  (For an empty \<open>substr\<close> Go counts runes; the handler never asks for that and the model
  returns 0 there.)
\<close>

lemma Index_Some_le: "Index s sep = Some i \<Longrightarrow> i + length sep \<le> length s"
proof (induction s arbitrary: i)
  case Nil
  then show ?case by (simp split: if_splits)
next
  case (Cons c cs)
  then show ?case by (auto simp: HasPrefix_def split: if_splits)
qed

function Count :: "string \<Rightarrow> string \<Rightarrow> nat" where
  "Count s substr =
     (if substr = [] then 0
      else case Index s substr of
             None \<Rightarrow> 0
           | Some i \<Rightarrow> Suc (Count (drop (i + length substr) s) substr))"
  by pat_completeness auto
termination
proof (relation "measure (\<lambda>(s, substr). length s)")
  show "wf (measure (\<lambda>(s, substr). length s))" by simp
next
  fix s substr :: string and i :: nat
  assume ne: "substr \<noteq> []" and ix: "Index s substr = Some i"
  from ne have "0 < length substr" by simp
  with Index_Some_le [OF ix] have "0 < length s" "0 < i + length substr"
    by linarith+
  then show "((drop (i + length substr) s, substr), (s, substr)) \<in> measure (\<lambda>(s, substr). length s)"
    by simp
qed

text \<open>
  \<^verbatim>\<open>strings.Split(s, sep) = genSplit(s, sep, 0, -1)\<close>: for \<open>n < 0\<close> Go sets
  \<open>n = Count(s, sep) + 1\<close> and then runs the loop above \<open>n - 1\<close> times.
\<close>

definition Split :: "string \<Rightarrow> string \<Rightarrow> string list" where
  "Split s sep = genSplit s sep (Count s sep)"

text \<open>
  \<^verbatim>\<open>strings.TrimRight(s, cutset)\<close>: \<open>s\<close> without its trailing characters that occur in
  \<open>cutset\<close> (the handler's cutset is \<open>"/"\<close>).
\<close>

definition TrimRight :: "string \<Rightarrow> string \<Rightarrow> string" where
  "TrimRight s cutset = rev (dropWhile (\<lambda>c. c \<in> set cutset) (rev s))"

section \<open>Errors\<close>

text \<open>
  Go errors as values. \<open>ErrsNew m\<close> is an error made in this package from a message
  (\<^verbatim>\<open>errs.New\<close>, \<^verbatim>\<open>errors.New\<close>, \<^verbatim>\<open>fmt.Errorf\<close> with \<open>%v\<close>); \<open>AddrError why addr\<close> is
  \<^verbatim>\<open>&net.AddrError{Err: why, Addr: addr}\<close>; \<open>Collab m chain\<close> is an error returned by a
  collaborator (authorization service, storage SDK, DNS lookup, template engine): \<open>m\<close> is
  its \<^verbatim>\<open>Error()\<close> text and \<open>chain\<close> lists the storage SDK's sentinel errors that
  \<^verbatim>\<open>errors.Is\<close> finds by unwrapping it.
\<close>

datatype sentinel = ErrBucketNotFound | ErrObjectNotFound

datatype error =
    ErrsNew string
  | AddrError string string
  | Collab string "sentinel list"

text \<open>
  \<^verbatim>\<open>
  func (e *AddrError) Error() string {
      s := e.Err
      if e.Addr != "" { s = "address " + e.Addr + ": " + s }
      return s
  }
  \<close>
\<close>

fun Error :: "error \<Rightarrow> string" where
  "Error (ErrsNew m) = m"
| "Error (AddrError why addr) = (if addr \<noteq> [] then ''address '' @ addr @ '': '' @ why else why)"
| "Error (Collab m chain) = m"

fun errorsIs :: "error \<Rightarrow> sentinel \<Rightarrow> bool" where
  "errorsIs (Collab m chain) target = (target \<in> set chain)"
| "errorsIs (ErrsNew m) target = False"
| "errorsIs (AddrError why addr) target = False"

section \<open>Host classification\<close>

text \<open>\<^verbatim>\<open>bytealg.IndexByteString\<close> and \<^verbatim>\<open>bytealg.LastIndexByteString\<close>; \<open>-1\<close> is \<open>None\<close>.\<close>

fun IndexByte :: "string \<Rightarrow> char \<Rightarrow> nat option" where
  "IndexByte [] c = None"
| "IndexByte (d # ds) c = (if d = c then Some 0 else map_option Suc (IndexByte ds c))"

definition LastIndexByte :: "string \<Rightarrow> char \<Rightarrow> nat option" where
  "LastIndexByte s c = map_option (\<lambda>j. length s - 1 - j) (IndexByte (rev s) c)"

definition missingPort :: string where
  "missingPort = ''missing port in address''"

definition tooManyColons :: string where
  "tooManyColons = ''too many colons in address''"

definition addrErr :: "string \<Rightarrow> string \<Rightarrow> error + string \<times> string" where
  "addrErr addr why = Inl (AddrError why addr)"

text \<open>
  The common tail of \<^verbatim>\<open>net.SplitHostPort\<close>, after \<open>host\<close>, \<open>j\<close> and \<open>k\<close> are set:
  \<^verbatim>\<open>
  if bytealg.IndexByteString(hostport[j:], '[') >= 0 {
      return addrErr(hostport, "unexpected '[' in address")
  }
  if bytealg.IndexByteString(hostport[k:], ']') >= 0 {
      return addrErr(hostport, "unexpected ']' in address")
  }
  port = hostport[i+1:]
  return host, port, nil
  \<close>
\<close>

definition splitHostPortTail :: "string \<Rightarrow> string \<Rightarrow> nat \<Rightarrow> nat \<Rightarrow> nat \<Rightarrow> error + string \<times> string" where
  "splitHostPortTail hostport host j k i =
     (if IndexByte (drop j hostport) (CHR ''['') \<noteq> None
        then addrErr hostport ''unexpected '[' in address''
      else if IndexByte (drop k hostport) (CHR '']'') \<noteq> None
        then addrErr hostport ''unexpected ']' in address''
      else Inr (host, drop (i + 1) hostport))"

text \<open>
  \<^verbatim>\<open>net.SplitHostPort\<close> of Go's standard library:
  \<^verbatim>\<open>
  j, k := 0, 0
  i := bytealg.LastIndexByteString(hostport, ':')
  if i < 0 { return addrErr(hostport, missingPort) }
  if hostport[0] == '[' {
      end := bytealg.IndexByteString(hostport, ']')
      if end < 0 { return addrErr(hostport, "missing ']' in address") }
      switch end + 1 {
      case len(hostport): return addrErr(hostport, missingPort)
      case i:
      default:
          if hostport[end+1] == ':' { return addrErr(hostport, tooManyColons) }
          return addrErr(hostport, missingPort)
      }
      host = hostport[1:end]
      j, k = 1, end+1
  } else {
      host = hostport[:i]
      if bytealg.IndexByteString(host, ':') >= 0 { return addrErr(hostport, tooManyColons) }
  }
  \<close>
  Both index reads are in range: \<open>hostport[0]\<close> is read only when a colon was found, and
  \<open>hostport[end+1]\<close> only when \<open>end + 1 \<noteq> len(hostport)\<close>.
\<close>

definition SplitHostPort :: "string \<Rightarrow> error + string \<times> string" where
  "SplitHostPort hostport =
     (case LastIndexByte hostport (CHR '':'') of
        None \<Rightarrow> addrErr hostport missingPort
      | Some i \<Rightarrow>
          if hostport ! 0 = CHR ''['' then
            (case IndexByte hostport (CHR '']'') of
               None \<Rightarrow> addrErr hostport ''missing ']' in address''
             | Some e \<Rightarrow>
                 if e + 1 = length hostport then addrErr hostport missingPort
                 else if e + 1 = i then
                   splitHostPortTail hostport (take (e - 1) (drop 1 hostport)) 1 (e + 1) i
                 else if hostport ! (e + 1) = CHR '':'' then addrErr hostport tooManyColons
                 else addrErr hostport missingPort)
          else
            (let host = take i hostport
             in if IndexByte host (CHR '':'') \<noteq> None then addrErr hostport tooManyColons
                else splitHostPortTail hostport host 0 0 i))"

text \<open>
  \<^verbatim>\<open>
  func compareHosts(url1, url2 string) (equal bool, err error) {
      host1, _, err1 := net.SplitHostPort(url1)
      host2, _, err2 := net.SplitHostPort(url2)
      if err1 != nil && strings.Contains(err1.Error(), "missing port in address") {
          host1 = url1
      } else if err1 != nil {
          return false, err1
      }
      if err2 != nil && strings.Contains(err2.Error(), "missing port in address") {
          host2 = url2
      } else if err2 != nil {
          return false, err2
      }
      if host1 != host2 { return false, nil }
      return true, nil
  }
  \<close>
  The result pair is Go's \<open>(equal, err)\<close>, with \<open>None\<close> for a nil error.
\<close>

definition compareHosts :: "string \<Rightarrow> string \<Rightarrow> bool \<times> error option" where
  "compareHosts url1 url2 =
     (let r1 = SplitHostPort url1;
          r2 = SplitHostPort url2
      in case (case r1 of
                 Inl err1 \<Rightarrow>
                   if Contains (Error err1) ''missing port in address'' then Inr url1 else Inl err1
               | Inr (host1, port1) \<Rightarrow> Inr host1) of
           Inl err1 \<Rightarrow> (False, Some err1)
         | Inr host1 \<Rightarrow>
             (case (case r2 of
                      Inl err2 \<Rightarrow>
                        if Contains (Error err2) ''missing port in address'' then Inr url2 else Inl err2
                    | Inr (host2, port2) \<Rightarrow> Inr host2) of
                Inl err2 \<Rightarrow> (False, Some err2)
              | Inr host2 \<Rightarrow> if host1 \<noteq> host2 then (False, None) else (True, None)))"


section \<open>Collaborators and effects\<close>

text \<open>
  The storage SDK (\<^verbatim>\<open>uplink\<close>), the base-58 decoder, the authorization service, the TXT
  record resolver, the template engine and the standard library's URL printing are outside
  this package. They are parameters of the model: a record \<open>env\<close> of functions, one per
  call the handler makes. Handles the handler only passes around are opaque references.
\<close>

datatype Access = AccessRef nat

datatype Project = ProjectRef nat

text \<open>\<^verbatim>\<open>uplink.Object\<close>, with the fields the handler reads (\<open>System.Created\<close>,
  \<open>System.ContentLength\<close>).\<close>

record Object =
  Key :: string
  IsPrefix :: bool
  Created :: int
  ContentLength :: int

text \<open>The answer of the authorization service; the handler reads \<open>AccessGrant\<close> and \<open>Public\<close>.\<close>

record AuthResp =
  AccessGrant :: string
  Public :: bool

typedecl float64

record Location =
  Latitude :: float64
  Longitude :: float64

record breadcrumb =
  Prefix :: string
  URL :: string

text \<open>The local \<^verbatim>\<open>Object{Key, Size, Prefix}\<close> of \<^verbatim>\<open>servePrefix\<close>.\<close>

datatype listing_object = ListingObject string string bool

text \<open>
  The data handed to a template: a message for \<open>404.html\<close>, \<open>{Key, Size, Locations, Pieces}\<close>
  for \<open>single-object.html\<close>, \<open>{Title, Breadcrumbs, Objects}\<close> for \<open>prefix-listing.html\<close>.
\<close>

datatype template_data =
    Message string
  | SingleObject string string "Location list" int
  | PrefixListing string "breadcrumb list" "listing_object list"

text \<open>
  What a request does besides returning: the calls to collaborators that reach the network
  or the store, the writes to the \<^verbatim>\<open>http.ResponseWriter\<close> and the log lines, in order.
  \<open>EvHttpError msg code\<close> is \<^verbatim>\<open>http.Error(w, msg, code)\<close>, \<open>EvRedirect url code\<close> is
  \<^verbatim>\<open>http.Redirect(w, r, url, code)\<close>, \<open>EvServeContent key o p bucket\<close> is
  \<^verbatim>\<open>httpranger.ServeContent(ctx, w, r, key, o.System.Created, objectranger.New(p, o, bucket))\<close>.
\<close>

datatype event =
    EvResolve string
  | EvParseAccess string
  | EvFetchAccessForHost string
  | EvOpenProject Access
  | EvCloseProject Project
  | EvStatObject Project string string
  | EvListObjects Project string string
  | EvGetObjectIPs Access string string
  | EvHttpError string nat
  | EvRedirect string nat
  | EvWriteHeader nat
  | EvSetHeader string string
  | EvExecuteTemplate string template_data
  | EvServeContent string Object Project string
  | EvLogError string error
  | EvLogWarn string error

text \<open>A Go function either returns or panics.\<close>

datatype 'a outcome = Return 'a | Panic

record URL =
  url_Scheme :: string
  url_Host :: string
  url_Path :: string

text \<open>
  \<open>base58_CheckDecode\<close> is \<^verbatim>\<open>base58.CheckDecode\<close> (payload, version byte, or an error);
  \<open>cfg_Resolve\<close> is \<^verbatim>\<open>AuthServiceConfig.Resolve\<close>; \<open>txtRecords_fetchAccessForHost\<close> is the
  TXT record lookup with its cache, returning the access and the storage root;
  \<open>project_ListObjects\<close> gives the items the iterator yields and its final \<^verbatim>\<open>Err()\<close>;
  \<open>templates_ExecuteTemplate\<close> gives the error of rendering a template;
  \<open>memory_Base10String\<close> is \<^verbatim>\<open>memory.Size(n).Base10String()\<close>; \<open>path_Join\<close> and
  \<open>url_String\<close> are \<^verbatim>\<open>path.Join\<close> and \<^verbatim>\<open>(*url.URL).String\<close>.
\<close>

record env =
  base58_CheckDecode :: "string \<Rightarrow> error + (8 word list \<times> 8 word)"
  cfg_Resolve :: "string \<Rightarrow> error + AuthResp"
  uplink_ParseAccess :: "string \<Rightarrow> error + Access"
  txtRecords_fetchAccessForHost :: "string \<Rightarrow> error + (Access \<times> string)"
  uplink_OpenProject :: "Access \<Rightarrow> error + Project"
  project_Close :: "Project \<Rightarrow> error option"
  project_StatObject :: "Project \<Rightarrow> string \<Rightarrow> string \<Rightarrow> error + Object"
  project_ListObjects :: "Project \<Rightarrow> string \<Rightarrow> string \<Rightarrow> Object list \<times> error option"
  object_GetObjectIPs :: "Access \<Rightarrow> string \<Rightarrow> string \<Rightarrow> error + string list"
  templates_ExecuteTemplate :: "string \<Rightarrow> template_data \<Rightarrow> error option"
  memory_Base10String :: "int \<Rightarrow> string"
  path_Join :: "string \<Rightarrow> string \<Rightarrow> string"
  url_String :: "URL \<Rightarrow> string"

text \<open>
  The handler's own state: the parsed base URL and the optional IP database
  (\<open>handler.mapper\<close>, \<open>None\<close> for nil), whose \<open>GetIPInfos\<close> gives a location or an error.
\<close>

record Handler =
  urlBase :: URL
  mapper :: "(string \<Rightarrow> error + Location) option"

text \<open>An incoming request: \<open>r.Method\<close>, \<open>r.Host\<close>, \<open>r.URL.Path\<close> and the keys of
  \<open>r.URL.Query()\<close>.\<close>

record Request =
  Method :: string
  Host :: string
  Path :: string
  QueryKeys :: "string list"

section \<open>Credential decoding\<close>

definition versionAccessKeyID :: "8 word" where
  "versionAccessKeyID = 1"

text \<open>
  \<^verbatim>\<open>
  func parseAccess(access string, cfg AuthServiceConfig) (*uplink.Access, error) {
      if _, version, err := base58.CheckDecode(access); err != nil {
          return nil, errs.New("invalid access")
      } else if version == versionAccessKeyID {
          authResp, err := cfg.Resolve(access)
          if err != nil { return nil, err }
          if !authResp.Public { return nil, errs.New("non-public access key id") }
          access = authResp.AccessGrant
      } else if version == 0 {
      } else {
          return nil, errs.New("invalid access version")
      }
      return uplink.ParseAccess(access)
  }
  \<close>
\<close>

definition parseAccess :: "env \<Rightarrow> string \<Rightarrow> event list \<times> (error + Access)" where
  "parseAccess env access =
     (case base58_CheckDecode env access of
        Inl err \<Rightarrow> ([], Inl (ErrsNew ''invalid access''))
      | Inr (payload, version) \<Rightarrow>
          if version = versionAccessKeyID then
            (case cfg_Resolve env access of
               Inl err \<Rightarrow> ([EvResolve access], Inl err)
             | Inr authResp \<Rightarrow>
                 if \<not> Public authResp
                 then ([EvResolve access], Inl (ErrsNew ''non-public access key id''))
                 else ([EvResolve access, EvParseAccess (AccessGrant authResp)],
                       uplink_ParseAccess env (AccessGrant authResp)))
          else if version = 0 then ([EvParseAccess access], uplink_ParseAccess env access)
          else ([], Inl (ErrsNew ''invalid access version'')))"

section \<open>Traditional path parsing\<close>

text \<open>
  \<^verbatim>\<open>
  func parseRequestPath(p string, cfg AuthServiceConfig)
        (rawRequest bool, _ *uplink.Access, serializedAccess, bucket, key string, err error) {
      p = strings.TrimPrefix(p, "/")
      segments := strings.SplitN(p, "/", 4)
      if len(segments) == 4 {
          if segments[0] == "raw" {
              rawRequest = true
              segments = segments[1:]
          } else {
              rawRequest = false
              segments[2] = segments[2] + "/" + segments[3]
              segments = segments[:len(segments)-1]
          }
      }
      if len(segments) == 1 {
          if segments[0] == "" {
              return rawRequest, nil, "", "", "", errs.New("missing access")
          }
          return rawRequest, nil, "", "", "", errs.New("missing bucket")
      }
      serializedAccess = segments[0]
      bucket = segments[1]
      if len(segments) == 3 { key = segments[2] }
      access, err := parseAccess(serializedAccess, cfg)
      if err != nil { return rawRequest, nil, "", "", "", err }
      return rawRequest, access, serializedAccess, bucket, key, nil
  }
  \<close>
  The result is \<open>(events, rawRequest, Inl err)\<close> for an error return (the other results are
  then nil and empty) and \<open>(events, rawRequest, Inr (access, serializedAccess, bucket, key))\<close>
  otherwise. \<open>SplitN\<close> with \<open>n = 4\<close> gives one to four segments, so after the first block
  there are one to three, and the reads of \<open>segments[0]\<close> and \<open>segments[1]\<close> are in range.
\<close>

definition parseRequestPath ::
  "env \<Rightarrow> string \<Rightarrow> event list \<times> bool \<times> (error + Access \<times> string \<times> string \<times> string)" where
  "parseRequestPath env p0 =
     (let p = TrimPrefix p0 ''/'';
          segments0 = SplitN p ''/'' 4;
          (rawRequest, segments) =
            (if length segments0 = 4 then
               (if segments0 ! 0 = ''raw'' then (True, drop 1 segments0)
                else (False,
                      take (length segments0 - 1)
                        (segments0[2 := segments0 ! 2 @ ''/'' @ segments0 ! 3])))
             else (False, segments0))
      in if length segments = 1 then
           (if segments ! 0 = [] then ([], rawRequest, Inl (ErrsNew ''missing access''))
            else ([], rawRequest, Inl (ErrsNew ''missing bucket'')))
         else
           (let serializedAccess = segments ! 0;
                bucket = segments ! 1;
                key = (if length segments = 3 then segments ! 2 else [])
            in case parseAccess env serializedAccess of
                 (evs, Inl err) \<Rightarrow> (evs, rawRequest, Inl err)
               | (evs, Inr access) \<Rightarrow>
                   (evs, rawRequest, Inr (access, serializedAccess, bucket, key))))"


section \<open>Responses shared by both flows\<close>

text \<open>
  \<^verbatim>\<open>
  func (handler *Handler) handleUplinkErr(w http.ResponseWriter, action string, err error) {
      switch {
      case errors.Is(err, uplink.ErrBucketNotFound):
          w.WriteHeader(http.StatusNotFound)
          err = handler.templates.ExecuteTemplate(w, "404.html", "Oops! Bucket not found.")
          if err != nil { handler.log.Error("error while executing template", zap.Error(err)) }
      case errors.Is(err, uplink.ErrObjectNotFound):
          w.WriteHeader(http.StatusNotFound)
          err = handler.templates.ExecuteTemplate(w, "404.html", "Oops! Object not found.")
          if err != nil { handler.log.Error("error while executing template", zap.Error(err)) }
      default:
          handler.log.Error("unable to handle request", zap.String("action", action), zap.Error(err))
          http.Error(w, "unable to handle request", http.StatusInternalServerError)
      }
  }
  \<close>
\<close>

definition notFoundPage :: "env \<Rightarrow> string \<Rightarrow> event list" where
  "notFoundPage env msg =
     [EvWriteHeader 404, EvExecuteTemplate ''404.html'' (Message msg)] @
     (case templates_ExecuteTemplate env ''404.html'' (Message msg) of
        None \<Rightarrow> []
      | Some err \<Rightarrow> [EvLogError ''error while executing template'' err])"

definition handleUplinkErr :: "env \<Rightarrow> string \<Rightarrow> error \<Rightarrow> event list" where
  "handleUplinkErr env action err =
     (if errorsIs err ErrBucketNotFound then notFoundPage env ''Oops! Bucket not found.''
      else if errorsIs err ErrObjectNotFound then notFoundPage env ''Oops! Object not found.''
      else [EvLogError ''unable to handle request'' err,
            EvHttpError ''unable to handle request'' 500])"

text \<open>
  The deferred \<^verbatim>\<open>project.Close()\<close> of both flows: it runs when the function leaves,
  and a failure is only logged.
\<close>

definition deferredClose :: "env \<Rightarrow> Project \<Rightarrow> event list" where
  "deferredClose env p =
     EvCloseProject p #
     (case project_Close env p of
        None \<Rightarrow> []
      | Some err \<Rightarrow> [EvLogWarn ''unable to close project'' err])"

text \<open>
  The breadcrumb loop of \<^verbatim>\<open>servePrefix\<close>:
  \<^verbatim>\<open>
  for i, prefix := range strings.Split(trimmed, "/") {
      input.Breadcrumbs = append(input.Breadcrumbs, breadcrumb{
          Prefix: prefix,
          URL:    input.Breadcrumbs[i].URL + prefix + "/",
      })
  }
  \<close>
  When element \<open>i\<close> is handled the list holds the root and \<open>i\<close> more entries, so
  \<open>input.Breadcrumbs[i]\<close> is the entry appended last; \<open>prev\<close> is its URL.
\<close>

fun appendBreadcrumbs :: "string \<Rightarrow> string list \<Rightarrow> breadcrumb list" where
  "appendBreadcrumbs prev [] = []"
| "appendBreadcrumbs prev (prefix # rest) =
     \<lparr>Prefix = prefix, URL = prev @ prefix @ ''/''\<rparr> #
     appendBreadcrumbs (prev @ prefix @ ''/'') rest"

text \<open>
  The listing loop of \<^verbatim>\<open>servePrefix\<close>:
  \<^verbatim>\<open>
  for objects.Next() {
      item := objects.Item()
      key := item.Key[len(realPrefix):]
      input.Objects = append(input.Objects, Object{
          Key: key, Size: memory.Size(item.System.ContentLength).Base10String(),
          Prefix: item.IsPrefix})
  }
  \<close>
  The slice expression panics when the item's key is shorter than the prefix: \<open>None\<close>.
\<close>

fun listingLoop :: "env \<Rightarrow> string \<Rightarrow> Object list \<Rightarrow> listing_object list option" where
  "listingLoop env realPrefix [] = Some []"
| "listingLoop env realPrefix (item # items) =
     (if length (Key item) < length realPrefix then None
      else case listingLoop env realPrefix items of
             None \<Rightarrow> None
           | Some rest \<Rightarrow>
               Some (ListingObject (drop (length realPrefix) (Key item))
                       (memory_Base10String env (ContentLength item)) (IsPrefix item) # rest))"

text \<open>
  \<^verbatim>\<open>
  func (handler *Handler) servePrefix(ctx, w, project, root breadcrumb,
        title, bucket, realPrefix, visiblePrefix string) (err error) {
      input.Title = title
      input.Breadcrumbs = append(input.Breadcrumbs, root)
      if visiblePrefix != "" {
          trimmed := strings.TrimRight(visiblePrefix, "/")
          for i, prefix := range strings.Split(trimmed, "/") { ... }
      }
      input.Objects = make([]Object, 0)
      objects := project.ListObjects(ctx, bucket, &uplink.ListObjectsOptions{
          Prefix: realPrefix, System: true})
      for objects.Next() { ... }
      if objects.Err() != nil { return objects.Err() }
      return handler.templates.ExecuteTemplate(w, "prefix-listing.html", input)
  }
  \<close>
\<close>

definition servePrefix ::
  "env \<Rightarrow> Project \<Rightarrow> breadcrumb \<Rightarrow> string \<Rightarrow> string \<Rightarrow> string \<Rightarrow> string
     \<Rightarrow> event list \<times> error option outcome" where
  "servePrefix env project root title bucket realPrefix visiblePrefix =
     (let crumbs = root #
            (if visiblePrefix \<noteq> []
             then appendBreadcrumbs (URL root) (Split (TrimRight visiblePrefix ''/'') ''/'')
             else []);
          (items, iterErr) = project_ListObjects env project bucket realPrefix
      in case listingLoop env realPrefix items of
           None \<Rightarrow> ([EvListObjects project bucket realPrefix], Panic)
         | Some objects \<Rightarrow>
             (case iterErr of
                Some err \<Rightarrow> ([EvListObjects project bucket realPrefix], Return (Some err))
              | None \<Rightarrow>
                  ([EvListObjects project bucket realPrefix,
                    EvExecuteTemplate ''prefix-listing.html'' (PrefixListing title crumbs objects)],
                   Return (templates_ExecuteTemplate env ''prefix-listing.html''
                             (PrefixListing title crumbs objects)))))"

text \<open>
  \<^verbatim>\<open>
  func makeLocation(base *url.URL, reqPath string) string {
      location := *base
      location.Path = path.Join(location.Path, reqPath)
      return location.String()
  }
  \<close>
\<close>

definition makeLocation :: "env \<Rightarrow> URL \<Rightarrow> string \<Rightarrow> string" where
  "makeLocation env base reqPath =
     url_String env (base\<lparr>url_Path := path_Join env (url_Path base) reqPath\<rparr>)"

section \<open>The traditional flow\<close>

text \<open>
  The location loop of \<^verbatim>\<open>handleTraditional\<close>:
  \<^verbatim>\<open>
  for _, ip := range ipBytes {
      info, err := handler.mapper.GetIPInfos(string(ip))
      if err != nil {
          handler.log.Error("failed to get IP info", zap.Error(err))
          continue
      }
      locations = append(locations, Location{
          Latitude: info.Location.Latitude, Longitude: info.Location.Longitude})
  }
  \<close>
\<close>

fun lookupLocations ::
  "(string \<Rightarrow> error + Location) \<Rightarrow> string list \<Rightarrow> event list \<times> Location list" where
  "lookupLocations m [] = ([], [])"
| "lookupLocations m (ip # ips) =
     (case m ip of
        Inl err \<Rightarrow>
          (EvLogError ''failed to get IP info'' err # fst (lookupLocations m ips),
           snd (lookupLocations m ips))
      | Inr info \<Rightarrow>
          (fst (lookupLocations m ips),
           \<lparr>Latitude = Latitude info, Longitude = Longitude info\<rparr> # snd (lookupLocations m ips)))"

text \<open>
  \<^verbatim>\<open>handleTraditional\<close> after \<^verbatim>\<open>uplink.OpenProject\<close> has succeeded, up to its return
  (the deferred close is appended by \<open>handleTraditional\<close> below):
  \<^verbatim>\<open>
  if key == "" || strings.HasSuffix(key, "/") {
      if !strings.HasSuffix(r.URL.Path, "/") {
          http.Redirect(w, r, r.URL.Path+"/", http.StatusMovedPermanently)
          return nil
      }
      err = handler.servePrefix(ctx, w, p, breadcrumb{
          Prefix: bucket,
          URL:    "/" + serializedAccess + "/" + bucket + "/",
      }, bucket, bucket, key, key)
      if err != nil { handler.handleUplinkErr(w, "list prefix", err) }
      return nil
  }
  o, err := p.StatObject(ctx, bucket, key)
  if err != nil {
      handler.handleUplinkErr(w, "stat object", err)
      return err
  }
  if locationOnly {
      location := makeLocation(handler.urlBase, r.URL.Path)
      http.Redirect(w, r, location, http.StatusFound)
      return nil
  }
  _, download := r.URL.Query()["download"]
  _, view := r.URL.Query()["view"]
  if !download && !view && !rawRequest {
      ipBytes, err := object.GetObjectIPs(ctx, uplink.Config{}, access, bucket, key)
      if err != nil {
          handler.handleUplinkErr(w, "get object IPs", err)
          return err
      }
      var locations []Location
      if handler.mapper != nil { for ... }
      input.Key = o.Key
      input.Size = memory.Size(o.System.ContentLength).Base10String()
      input.Locations = locations
      input.Pieces = int64(len(locations))
      return handler.templates.ExecuteTemplate(w, "single-object.html", input)
  }
  if download {
      segments := strings.Split(key, "/")
      obj := segments[len(segments)-1]
      w.Header().Set("Content-Disposition", "attachment; filename=\""+obj+"\"")
  }
  httpranger.ServeContent(ctx, w, r, key, o.System.Created, objectranger.New(p, o, bucket))
  return nil
  \<close>
\<close>

definition traditionalObject ::
  "env \<Rightarrow> Handler \<Rightarrow> Request \<Rightarrow> bool \<Rightarrow> Access \<Rightarrow> string \<Rightarrow> string \<Rightarrow> Project \<Rightarrow> Object
     \<Rightarrow> event list \<times> error option outcome" where
  "traditionalObject env handler r rawRequest access bucket key p obj =
     (let download = (''download'' \<in> set (QueryKeys r));
          view = (''view'' \<in> set (QueryKeys r))
      in if \<not> download \<and> \<not> view \<and> \<not> rawRequest then
           (case object_GetObjectIPs env access bucket key of
              Inl err \<Rightarrow>
                (EvGetObjectIPs access bucket key # handleUplinkErr env ''get object IPs'' err,
                 Return (Some err))
            | Inr ipBytes \<Rightarrow>
                (let looked = (case mapper handler of
                                 None \<Rightarrow> ([], [])
                               | Some m \<Rightarrow> lookupLocations m ipBytes);
                     input = SingleObject (Key obj) (memory_Base10String env (ContentLength obj))
                               (snd looked) (int (length (snd looked)))
                 in (EvGetObjectIPs access bucket key # fst looked @
                       [EvExecuteTemplate ''single-object.html'' input],
                     Return (templates_ExecuteTemplate env ''single-object.html'' input))))
         else
           ((if download
             then [EvSetHeader ''Content-Disposition''
                     (''attachment; filename='' @ [CHR 0x22] @ last (Split key ''/'') @ [CHR 0x22])]
             else []) @
            [EvServeContent key obj p bucket],
            Return None))"

definition traditionalBody ::
  "env \<Rightarrow> Handler \<Rightarrow> Request \<Rightarrow> bool \<Rightarrow> bool \<Rightarrow> Access \<Rightarrow> string \<Rightarrow> string \<Rightarrow> string \<Rightarrow> Project
     \<Rightarrow> event list \<times> error option outcome" where
  "traditionalBody env handler r locationOnly rawRequest access serializedAccess bucket key p =
     (if key = [] \<or> HasSuffix key ''/'' then
        (if \<not> HasSuffix (Path r) ''/'' then ([EvRedirect (Path r @ ''/'') 301], Return None)
         else
           (case servePrefix env p
                   \<lparr>Prefix = bucket, URL = ''/'' @ serializedAccess @ ''/'' @ bucket @ ''/''\<rparr>
                   bucket bucket key key of
              (evs, Panic) \<Rightarrow> (evs, Panic)
            | (evs, Return None) \<Rightarrow> (evs, Return None)
            | (evs, Return (Some err)) \<Rightarrow>
                (evs @ handleUplinkErr env ''list prefix'' err, Return None)))
      else
        (case project_StatObject env p bucket key of
           Inl err \<Rightarrow>
             (EvStatObject p bucket key # handleUplinkErr env ''stat object'' err,
              Return (Some err))
         | Inr obj \<Rightarrow>
             if locationOnly then
               ([EvStatObject p bucket key,
                 EvRedirect (makeLocation env (urlBase handler) (Path r)) 302],
                Return None)
             else
               (case traditionalObject env handler r rawRequest access bucket key p obj of
                  (evs, res) \<Rightarrow> (EvStatObject p bucket key # evs, res))))"

text \<open>
  \<^verbatim>\<open>
  func (handler *Handler) handleTraditional(ctx, w, r, locationOnly bool) error {
      rawRequest, access, serializedAccess, bucket, key, err :=
          parseRequestPath(r.URL.Path, handler.authConfig)
      if err != nil {
          err = fmt.Errorf("invalid request: %v", err)
          http.Error(w, err.Error(), http.StatusBadRequest)
          return err
      }
      p, err := uplink.OpenProject(ctx, access)
      if err != nil {
          handler.handleUplinkErr(w, "open project", err)
          return err
      }
      defer func() {
          if err := p.Close(); err != nil {
              handler.log.With(zap.Error(err)).Warn("unable to close project")
          }
      }()
      ...
  }
  \<close>
\<close>

definition handleTraditional ::
  "env \<Rightarrow> Handler \<Rightarrow> Request \<Rightarrow> bool \<Rightarrow> event list \<times> error option outcome" where
  "handleTraditional env handler r locationOnly =
     (case parseRequestPath env (Path r) of
        (evs, rawRequest, Inl err0) \<Rightarrow>
          (evs @ [EvHttpError (''invalid request: '' @ Error err0) 400],
           Return (Some (ErrsNew (''invalid request: '' @ Error err0))))
      | (evs, rawRequest, Inr (access, serializedAccess, bucket, key)) \<Rightarrow>
          (case uplink_OpenProject env access of
             Inl err \<Rightarrow>
               (evs @ EvOpenProject access # handleUplinkErr env ''open project'' err,
                Return (Some err))
           | Inr p \<Rightarrow>
               (case traditionalBody env handler r locationOnly rawRequest access
                       serializedAccess bucket key p of
                  (evs2, res) \<Rightarrow>
                    (evs @ EvOpenProject access # evs2 @ deferredClose env p, res))))"

section \<open>The custom-domain flow\<close>

text \<open>
  \<^verbatim>\<open>handleHostingService\<close> from the comment "by this point, the key is either exactly ""
  or ends in a "/"" on:
  \<^verbatim>\<open>
  k := key + "index.html"
  o, err := project.StatObject(ctx, bucket, k)
  if err == nil {
      httpranger.ServeContent(ctx, w, r, k, o.System.Created, objectranger.New(project, o, bucket))
      return nil
  }
  if !errors.Is(err, uplink.ErrObjectNotFound) {
      handler.handleUplinkErr(w, "stat object", err)
      return err
  }
  err = handler.servePrefix(ctx, w, project, breadcrumb{Prefix: host, URL: "/"},
      host, bucket, key, strings.TrimPrefix(r.URL.Path, "/"))
  if err != nil {
      handler.handleUplinkErr(w, "list prefix", err)
      return err
  }
  return nil
  \<close>
\<close>

definition hostingIndexOrListing ::
  "env \<Rightarrow> Request \<Rightarrow> string \<Rightarrow> Project \<Rightarrow> string \<Rightarrow> string \<Rightarrow> event list \<times> error option outcome" where
  "hostingIndexOrListing env r host project bucket key =
     (let k = key @ ''index.html''
      in case project_StatObject env project bucket k of
           Inr obj \<Rightarrow>
             ([EvStatObject project bucket k, EvServeContent k obj project bucket], Return None)
         | Inl err \<Rightarrow>
             if \<not> errorsIs err ErrObjectNotFound then
               (EvStatObject project bucket k # handleUplinkErr env ''stat object'' err,
                Return (Some err))
             else
               (case servePrefix env project \<lparr>Prefix = host, URL = ''/''\<rparr> host bucket key
                       (TrimPrefix (Path r) ''/'') of
                  (evs, Panic) \<Rightarrow> (EvStatObject project bucket k # evs, Panic)
                | (evs, Return None) \<Rightarrow> (EvStatObject project bucket k # evs, Return None)
                | (evs, Return (Some err2)) \<Rightarrow>
                    (EvStatObject project bucket k # evs @ handleUplinkErr env ''list prefix'' err2,
                     Return (Some err2))))"

text \<open>
  \<^verbatim>\<open>handleHostingService\<close> after \<^verbatim>\<open>uplink.OpenProject\<close> has succeeded:
  \<^verbatim>\<open>
  bucket, key := determineBucketAndObjectKey(root, r.URL.Path)
  if key != "" { // there are no objects with the empty key
      o, err := project.StatObject(ctx, bucket, key)
      if err == nil {
          httpranger.ServeContent(ctx, w, r, key, o.System.Created, objectranger.New(project, o, bucket))
          return nil
      }
      if !strings.HasSuffix(key, "/") || !errors.Is(err, uplink.ErrObjectNotFound) {
          handler.handleUplinkErr(w, "stat object", err)
          return err
      }
  }
  \<close>
\<close>

definition hostingBody ::
  "env \<Rightarrow> Request \<Rightarrow> string \<Rightarrow> Project \<Rightarrow> string \<Rightarrow> event list \<times> error option outcome" where
  "hostingBody env r host project root =
     (case determineBucketAndObjectKey root (Path r) of
        (bucket, key) \<Rightarrow>
          if key \<noteq> [] then
            (case project_StatObject env project bucket key of
               Inr obj \<Rightarrow>
                 ([EvStatObject project bucket key, EvServeContent key obj project bucket],
                  Return None)
             | Inl err \<Rightarrow>
                 if \<not> HasSuffix key ''/'' \<or> \<not> errorsIs err ErrObjectNotFound then
                   (EvStatObject project bucket key # handleUplinkErr env ''stat object'' err,
                    Return (Some err))
                 else
                   (case hostingIndexOrListing env r host project bucket key of
                      (evs, res) \<Rightarrow> (EvStatObject project bucket key # evs, res)))
          else hostingIndexOrListing env r host project bucket key)"

text \<open>
  \<^verbatim>\<open>
  func (handler *Handler) handleHostingService(ctx, w, r) error {
      host, _, err := net.SplitHostPort(r.Host)
      if err != nil && strings.Contains(err.Error(), "missing port in address") {
          host = r.Host
      } else if err != nil {
          handler.log.Error("unable to handle request", zap.Error(err))
          http.Error(w, "unable to handle request", http.StatusInternalServerError)
          return err
      }
      access, root, err := handler.txtRecords.fetchAccessForHost(ctx, host)
      if err != nil {
          handler.log.Error("unable to handle request", zap.Error(err))
          http.Error(w, "unable to handle request", http.StatusInternalServerError)
          return err
      }
      project, err := uplink.OpenProject(ctx, access)
      if err != nil {
          handler.handleUplinkErr(w, "open project", err)
          return err
      }
      defer func() { ... project.Close() ... }()
      ...
  }
  \<close>
\<close>

definition handleHostingService ::
  "env \<Rightarrow> Handler \<Rightarrow> Request \<Rightarrow> event list \<times> error option outcome" where
  "handleHostingService env handler r =
     (case (case SplitHostPort (Host r) of
              Inl err \<Rightarrow>
                if Contains (Error err) ''missing port in address'' then Inr (Host r) else Inl err
            | Inr (h, port) \<Rightarrow> Inr h) of
        Inl err \<Rightarrow>
          ([EvLogError ''unable to handle request'' err,
            EvHttpError ''unable to handle request'' 500],
           Return (Some err))
      | Inr host \<Rightarrow>
          (case txtRecords_fetchAccessForHost env host of
             Inl err \<Rightarrow>
               ([EvFetchAccessForHost host, EvLogError ''unable to handle request'' err,
                 EvHttpError ''unable to handle request'' 500],
                Return (Some err))
           | Inr (access, root) \<Rightarrow>
               (case uplink_OpenProject env access of
                  Inl err \<Rightarrow>
                    (EvFetchAccessForHost host # EvOpenProject access #
                       handleUplinkErr env ''open project'' err,
                     Return (Some err))
                | Inr project \<Rightarrow>
                    (case hostingBody env r host project root of
                       (evs, res) \<Rightarrow>
                         (EvFetchAccessForHost host # EvOpenProject access # evs @
                            deferredClose env project,
                          res)))))"

section \<open>The router\<close>

text \<open>
  \<^verbatim>\<open>
  func (handler *Handler) serveHTTP(w http.ResponseWriter, r *http.Request) (err error) {
      equal, err := compareHosts(r.Host, handler.urlBase.Host)
      if err != nil { return err }
      if !equal { return handler.handleHostingService(ctx, w, r) }
      locationOnly := false
      switch r.Method {
      case http.MethodHead:
          locationOnly = true
      case http.MethodGet:
      default:
          err = errors.New("method not allowed")
          http.Error(w, err.Error(), http.StatusMethodNotAllowed)
          return err
      }
      return handler.handleTraditional(ctx, w, r, locationOnly)
  }
  \<close>
  (The monitoring task of \<^verbatim>\<open>mon.Task\<close> is left out.)
\<close>

definition serveHTTP :: "env \<Rightarrow> Handler \<Rightarrow> Request \<Rightarrow> event list \<times> error option outcome" where
  "serveHTTP env handler r =
     (case compareHosts (Host r) (url_Host (urlBase handler)) of
        (equal, Some err) \<Rightarrow> ([], Return (Some err))
      | (equal, None) \<Rightarrow>
          if \<not> equal then handleHostingService env handler r
          else if Method r = ''HEAD'' then handleTraditional env handler r True
          else if Method r = ''GET'' then handleTraditional env handler r False
          else ([EvHttpError ''method not allowed'' 405],
                Return (Some (ErrsNew ''method not allowed''))))"


section \<open>Auxiliary notions for stating the properties\<close>

text \<open>
  The bare host as \<open>compareHosts\<close> and \<open>handleHostingService\<close> compute it: the host part
  when the split succeeds, the whole string when the split fails with an error whose text
  contains "missing port in address", that error otherwise.
\<close>

definition bareHost :: "string \<Rightarrow> error + string" where
  "bareHost u =
     (case SplitHostPort u of
        Inl err \<Rightarrow> if Contains (Error err) ''missing port in address'' then Inr u else Inl err
      | Inr (h, port) \<Rightarrow> Inr h)"



text \<open>
  A small concrete deployment, used to run the model: the token \<open>ACCESS\<close> is a serialized
  access (version 0), \<open>KEYID\<close> and \<open>PUBID\<close> are access key ids (version 1) that the
  authorization service resolves to a private and to a public grant, \<open>V2\<close> decodes with
  version 2; the bucket holds the single object \<open>a/b.jpg\<close>; the host \<open>site.test\<close> is
  mapped to \<open>bucket/a/\<close>.
\<close>

definition exampleObject :: Object where
  "exampleObject = \<lparr>Key = ''a/b.jpg'', IsPrefix = False, Created = 0, ContentLength = 3\<rparr>"

definition exampleEnv :: env where
  "exampleEnv =
     \<lparr>base58_CheckDecode =
        (\<lambda>s. if s = ''ACCESS'' then Inr ([], 0)
              else if s = ''KEYID'' \<or> s = ''PUBID'' then Inr ([], 1)
              else if s = ''V2'' then Inr ([7], 2)
              else Inl (Collab ''checksum error'' [])),
      cfg_Resolve =
        (\<lambda>s. if s = ''KEYID'' then Inr \<lparr>AccessGrant = ''ACCESS'', Public = False\<rparr>
              else if s = ''PUBID'' then Inr \<lparr>AccessGrant = ''ACCESS'', Public = True\<rparr>
              else Inl (Collab ''unknown access key id'' [])),
      uplink_ParseAccess =
        (\<lambda>s. if s = ''ACCESS'' then Inr (AccessRef 0) else Inl (Collab ''malformed access'' [])),
      txtRecords_fetchAccessForHost =
        (\<lambda>h. if h = ''site.test'' then Inr (AccessRef 0, ''bucket/a/'')
              else Inl (Collab ''no TXT record'' [])),
      uplink_OpenProject = (\<lambda>a. Inr (ProjectRef 0)),
      project_Close = (\<lambda>p. None),
      project_StatObject =
        (\<lambda>p b k. if b = ''bucket'' \<and> k = ''a/b.jpg'' then Inr exampleObject
                  else Inl (Collab ''object not found'' [ErrObjectNotFound])),
      project_ListObjects =
        (\<lambda>p b pre. if b = ''bucket'' \<and> pre = ''a/'' then ([exampleObject], None) else ([], None)),
      object_GetObjectIPs = (\<lambda>a b k. Inr []),
      templates_ExecuteTemplate = (\<lambda>name data. None),
      memory_Base10String = (\<lambda>n. ''3 B''),
      path_Join = (\<lambda>a b. a @ b),
      url_String = (\<lambda>u. url_Scheme u @ ''://'' @ url_Host u @ url_Path u)\<rparr>"

definition exampleHandler :: Handler where
  "exampleHandler =
     \<lparr>urlBase = \<lparr>url_Scheme = ''https'', url_Host = ''gateway.test'', url_Path = []\<rparr>,
      mapper = None\<rparr>"


text \<open>
  A second deployment, for the custom-domain flow: as the first, except that the bucket holds
  \<open>a/index.html\<close> and nothing else, that a key ending in \<open>/\<close> is reported as not
  found, and that every other stat fails with an error that is not "object not found".
\<close>

definition indexObject :: Object where
  "indexObject = \<lparr>Key = ''a/index.html'', IsPrefix = False, Created = 0, ContentLength = 3\<rparr>"

definition indexEnv :: env where
  "indexEnv = exampleEnv
     \<lparr>project_StatObject :=
        (\<lambda>p b k. if b = ''bucket'' \<and> k = ''a/index.html'' then Inr indexObject
                  else if HasSuffix k ''/'' then Inl (Collab ''object not found'' [ErrObjectNotFound])
                  else Inl (Collab ''permission denied'' []))\<rparr>"


section \<open>Properties of the string operations\<close>

lemma HasPrefix_single: "HasPrefix s [c] = (s \<noteq> [] \<and> hd s = c)"
  by (cases s) (auto simp: HasPrefix_def)

lemma HasSuffix_single: "HasSuffix s [c] = (s \<noteq> [] \<and> last s = c)"
proof (cases s rule: rev_cases)
  case Nil
  then show ?thesis by (simp add: HasSuffix_def)
next
  case (snoc ys y)
  then show ?thesis by (auto simp: HasSuffix_def)
qed

lemma TrimPrefix_single:
  "TrimPrefix s [c] = (case s of [] \<Rightarrow> [] | d # ds \<Rightarrow> if d = c then ds else d # ds)"
  by (cases s) (auto simp: TrimPrefix_def HasPrefix_def)

lemma Index_single_notin: "c \<notin> set s \<Longrightarrow> Index s [c] = None"
  by (induction s) (auto simp: HasPrefix_def)

lemma Index_single_in:
  "c \<in> set s \<Longrightarrow> Index s [c] = Some (length (takeWhile (\<lambda>d. d \<noteq> c) s))"
  by (induction s) (auto simp: HasPrefix_def)

lemma take_length_takeWhile: "take (length (takeWhile P s)) s = takeWhile P s"
  by (induction s) auto

lemma drop_Suc_length_takeWhile: "drop (Suc (length (takeWhile P s))) s = tl (dropWhile P s)"
  by (induction s) auto

lemma takeWhile_neq_notin: "c \<notin> set s \<Longrightarrow> takeWhile (\<lambda>d. d \<noteq> c) s = s"
  by (induction s) auto

lemma SplitN_two_cases:
  "SplitN s [c] 2 =
     (if c \<in> set s then [takeWhile (\<lambda>d. d \<noteq> c) s, tl (dropWhile (\<lambda>d. d \<noteq> c) s)] else [s])"
  by (simp add: SplitN_def numeral_2_eq_2 Index_single_in Index_single_notin
      take_length_takeWhile drop_Suc_length_takeWhile)

section \<open>Claims about the bucket/key mapper\<close>

lemma determineBucketAndObjectKey_eq:
  "determineBucketAndObjectKey r u = (spec_bucket r, spec_prefix r @ spec_suffix u)"
  by (simp add: determineBucketAndObjectKey_def SplitN_two_cases HasSuffix_single
      TrimPrefix_single spec_bucket_def spec_prefix_def spec_rest_def spec_suffix_def Let_def
      takeWhile_neq_notin)

text \<open>
  C1: for every \<open>root\<close> and \<open>urlPath\<close>, \<open>determineBucketAndObjectKey\<close> returns the part of
  \<open>root\<close> before its first \<open>/\<close> as bucket, and as key the rest of \<open>root\<close> (closed with a
  \<open>/\<close> exactly when it is non-empty and does not end in one) followed by \<open>urlPath\<close> without
  one leading \<open>/\<close>; the eight rows of the documented table come out as listed.
\<close>

theorem determineBucketAndObjectKey_spec:
  "determineBucketAndObjectKey root urlPath = (spec_bucket root, spec_prefix root @ spec_suffix urlPath)
   \<and> determineBucketAndObjectKey ''bucket/prefix/'' ''/images/pic.jpg'' = (''bucket'', ''prefix/images/pic.jpg'')
   \<and> determineBucketAndObjectKey ''bucket'' ''/images/pic.jpg'' = (''bucket'', ''images/pic.jpg'')
   \<and> determineBucketAndObjectKey ''bucket/'' ''/images/pic.jpg'' = (''bucket'', ''images/pic.jpg'')
   \<and> determineBucketAndObjectKey ''bucket//'' ''/images/pic.jpg'' = (''bucket'', ''/images/pic.jpg'')
   \<and> determineBucketAndObjectKey ''bucket//prefix'' ''/images/pic.jpg'' = (''bucket'', ''/prefix/images/pic.jpg'')
   \<and> determineBucketAndObjectKey ''bucket/prefix//'' ''/images/pic.jpg'' = (''bucket'', ''prefix//images/pic.jpg'')
   \<and> determineBucketAndObjectKey ''bucket/prefix'' ''/images/pic.jpg'' = (''bucket'', ''prefix/images/pic.jpg'')
   \<and> determineBucketAndObjectKey ''bucket/prefix/'' ''//images/pic.jpg'' = (''bucket'', ''prefix//images/pic.jpg'')"
  unfolding determineBucketAndObjectKey_eq
  by (simp add: spec_bucket_def spec_prefix_def spec_rest_def spec_suffix_def)

section \<open>Claims about the credential decoder\<close>

text \<open>
  C5: a token that decodes with a version byte other than 0 and 1 is refused with
  "invalid access version" (the specification's \<open>UnsupportedCredentialVersion\<close>), whatever
  the payload, and neither the authorization service nor the SDK parser is called: the event
  list is empty and the result does not depend on them.
\<close>

theorem parseAccess_unsupported_version:
  assumes "base58_CheckDecode env token = Inr (payload, version)"
    and "version \<noteq> 0" and "version \<noteq> versionAccessKeyID"
  shows "parseAccess env token = ([], Inl (ErrsNew ''invalid access version''))
       \<and> parseAccess (env\<lparr>cfg_Resolve := resolve', uplink_ParseAccess := parse'\<rparr>) token =
           ([], Inl (ErrsNew ''invalid access version''))"
  using assms by (simp add: parseAccess_def)

theorem parseAccess_unsupported_version_witness:
  "base58_CheckDecode exampleEnv ''V2'' = Inr ([7], 2) \<and> (2 :: 8 word) \<noteq> 0
   \<and> (2 :: 8 word) \<noteq> versionAccessKeyID
   \<and> parseAccess exampleEnv ''V2'' = ([], Inl (ErrsNew ''invalid access version''))"
proof -
  have d: "base58_CheckDecode exampleEnv ''V2'' = Inr ([7], 2)"
    by (simp add: exampleEnv_def)
  have n0: "(2 :: 8 word) \<noteq> 0" by simp
  have n1: "(2 :: 8 word) \<noteq> versionAccessKeyID" by (simp add: versionAccessKeyID_def)
  from parseAccess_unsupported_version [OF d n0 n1] d n0 n1 show ?thesis by simp
qed

text \<open>
  C6: for a token that decodes with version 1, when the authorization service answers with
  the public flag unset, \<open>parseAccess\<close> fails with "non-public access key id" (the
  specification's \<open>NonPublicCredential\<close>) after the single call to the service; when the flag
  is set the resolved serialized access is what the SDK parser is given; the parser is
  called exactly when the flag is set.
\<close>

theorem parseAccess_access_key_id:
  assumes "base58_CheckDecode env token = Inr (payload, versionAccessKeyID)"
    and "cfg_Resolve env token = Inr authResp"
  shows "(\<not> Public authResp \<longrightarrow>
            parseAccess env token = ([EvResolve token], Inl (ErrsNew ''non-public access key id'')))
       \<and> (Public authResp \<longrightarrow>
            parseAccess env token =
              ([EvResolve token, EvParseAccess (AccessGrant authResp)],
               uplink_ParseAccess env (AccessGrant authResp)))
       \<and> ((\<exists>g. EvParseAccess g \<in> set (fst (parseAccess env token))) \<longleftrightarrow> Public authResp)"
  using assms by (simp add: parseAccess_def)

theorem parseAccess_access_key_id_witness:
  "base58_CheckDecode exampleEnv ''KEYID'' = Inr ([], versionAccessKeyID)
   \<and> cfg_Resolve exampleEnv ''KEYID'' = Inr \<lparr>AccessGrant = ''ACCESS'', Public = False\<rparr>
   \<and> parseAccess exampleEnv ''KEYID'' = ([EvResolve ''KEYID''], Inl (ErrsNew ''non-public access key id''))
   \<and> base58_CheckDecode exampleEnv ''PUBID'' = Inr ([], versionAccessKeyID)
   \<and> cfg_Resolve exampleEnv ''PUBID'' = Inr \<lparr>AccessGrant = ''ACCESS'', Public = True\<rparr>
   \<and> parseAccess exampleEnv ''PUBID'' = ([EvResolve ''PUBID'', EvParseAccess ''ACCESS''], Inr (AccessRef 0))"
proof -
  have d1: "base58_CheckDecode exampleEnv ''KEYID'' = Inr ([], versionAccessKeyID)"
    by (simp add: exampleEnv_def versionAccessKeyID_def)
  have r1: "cfg_Resolve exampleEnv ''KEYID'' = Inr \<lparr>AccessGrant = ''ACCESS'', Public = False\<rparr>"
    by (simp add: exampleEnv_def)
  have d2: "base58_CheckDecode exampleEnv ''PUBID'' = Inr ([], versionAccessKeyID)"
    by (simp add: exampleEnv_def versionAccessKeyID_def)
  have r2: "cfg_Resolve exampleEnv ''PUBID'' = Inr \<lparr>AccessGrant = ''ACCESS'', Public = True\<rparr>"
    by (simp add: exampleEnv_def)
  have p: "uplink_ParseAccess exampleEnv ''ACCESS'' = Inr (AccessRef 0)"
    by (simp add: exampleEnv_def)
  from parseAccess_access_key_id [OF d1 r1] parseAccess_access_key_id [OF d2 r2] d1 r1 d2 r2 p
  show ?thesis by simp
qed

section \<open>Claims about the traditional path parser\<close>

lemma genSplit_length_le: "length (genSplit s sep k) \<le> Suc k"
  by (induction k arbitrary: s) (auto split: option.splits)

lemma genSplit_nonempty: "genSplit s sep k \<noteq> []"
  by (cases k) (auto split: option.splits)

lemma SplitN_four_cases:
  "(\<exists>a. SplitN s ''/'' 4 = [a]) \<or> (\<exists>a b. SplitN s ''/'' 4 = [a, b])
   \<or> (\<exists>a b c. SplitN s ''/'' 4 = [a, b, c]) \<or> (\<exists>a b c d. SplitN s ''/'' 4 = [a, b, c, d])"
  by (simp add: SplitN_def numeral_eq_Suc split: option.splits)

lemma parseRequestPath_one:
  assumes "SplitN (TrimPrefix p ''/'') ''/'' 4 = [seg]"
  shows "parseRequestPath env p =
           ([], False, Inl (ErrsNew (if seg = [] then ''missing access'' else ''missing bucket'')))"
  using assms by (simp add: parseRequestPath_def)

lemma parseRequestPath_four:
  assumes "SplitN (TrimPrefix p ''/'') ''/'' 4 = [s0, s1, s2, s3]"
  shows "parseRequestPath env p =
        (if s0 = ''raw''
         then (case parseAccess env s1 of
                 (evs, Inl err) \<Rightarrow> (evs, True, Inl err)
               | (evs, Inr a) \<Rightarrow> (evs, True, Inr (a, s1, s2, s3)))
         else (case parseAccess env s0 of
                 (evs, Inl err) \<Rightarrow> (evs, False, Inl err)
               | (evs, Inr a) \<Rightarrow> (evs, False, Inr (a, s0, s1, s2 @ ''/'' @ s3))))"
  using assms by (simp add: parseRequestPath_def split: prod.splits sum.splits)

lemma parseRequestPath_bucket:
  assumes "parseRequestPath env p = (evs, raw, Inr (access, sa, bucket, key))"
  shows "2 \<le> length (SplitN (TrimPrefix p ''/'') ''/'' 4)
       \<and> bucket = (if length (SplitN (TrimPrefix p ''/'') ''/'' 4) = 4
                       \<and> SplitN (TrimPrefix p ''/'') ''/'' 4 ! 0 = ''raw''
                    then SplitN (TrimPrefix p ''/'') ''/'' 4 ! 2
                    else SplitN (TrimPrefix p ''/'') ''/'' 4 ! 1)"
  using assms SplitN_four_cases [of "TrimPrefix p ''/''"]
  by (auto simp: parseRequestPath_def Let_def split: prod.splits sum.splits if_splits)

lemma split_ex1:
  "SplitN (TrimPrefix ''/ACCESS/bucket/a/b.jpg'' ''/'') ''/'' 4 = [''ACCESS'', ''bucket'', ''a'', ''b.jpg'']"
  by code_simp

lemma split_ex2:
  "SplitN (TrimPrefix ''/raw/ACCESS/bucket/a/b.jpg'' ''/'') ''/'' 4 =
     [''raw'', ''ACCESS'', ''bucket'', ''a/b.jpg'']"
  by code_simp

lemma split_ex3: "SplitN (TrimPrefix ''/ACCESS'' ''/'') ''/'' 4 = [''ACCESS'']"
  by code_simp

lemma split_ex4: "SplitN (TrimPrefix ''/'' ''/'') ''/'' 4 = [[]]"
  by code_simp

lemma parseAccess_example: "parseAccess exampleEnv ''ACCESS'' = ([EvParseAccess ''ACCESS''], Inr (AccessRef 0))"
  by (simp add: parseAccess_def exampleEnv_def versionAccessKeyID_def)

text \<open>
  C2: when the path, without one leading \<open>/\<close>, splits into four segments, a first segment
  \<open>raw\<close> sets \<open>rawRequest\<close> and makes the other three credential, bucket and key; otherwise
  \<open>rawRequest\<close> is false and the key is segments three and four joined by \<open>/\<close>. The
  credential is then decoded, and a decoding error is the result. For
  \<open>/ACCESS/bucket/a/b.jpg\<close> and \<open>/raw/ACCESS/bucket/a/b.jpg\<close>, with a credential that
  decodes, bucket is \<open>bucket\<close> and key is \<open>a/b.jpg\<close>.
\<close>

theorem parseRequestPath_four_segments:
  "(SplitN (TrimPrefix p ''/'') ''/'' 4 = [s0, s1, s2, s3] \<longrightarrow>
      parseRequestPath env p =
        (if s0 = ''raw''
         then (case parseAccess env s1 of
                 (evs, Inl err) \<Rightarrow> (evs, True, Inl err)
               | (evs, Inr a) \<Rightarrow> (evs, True, Inr (a, s1, s2, s3)))
         else (case parseAccess env s0 of
                 (evs, Inl err) \<Rightarrow> (evs, False, Inl err)
               | (evs, Inr a) \<Rightarrow> (evs, False, Inr (a, s0, s1, s2 @ ''/'' @ s3)))))
   \<and> (parseAccess env ''ACCESS'' = (evs', Inr access) \<longrightarrow>
        parseRequestPath env ''/ACCESS/bucket/a/b.jpg'' =
          (evs', False, Inr (access, ''ACCESS'', ''bucket'', ''a/b.jpg''))
        \<and> parseRequestPath env ''/raw/ACCESS/bucket/a/b.jpg'' =
          (evs', True, Inr (access, ''ACCESS'', ''bucket'', ''a/b.jpg'')))"
proof (intro conjI impI)
  assume "SplitN (TrimPrefix p ''/'') ''/'' 4 = [s0, s1, s2, s3]"
  then show "parseRequestPath env p =
        (if s0 = ''raw''
         then (case parseAccess env s1 of
                 (evs, Inl err) \<Rightarrow> (evs, True, Inl err)
               | (evs, Inr a) \<Rightarrow> (evs, True, Inr (a, s1, s2, s3)))
         else (case parseAccess env s0 of
                 (evs, Inl err) \<Rightarrow> (evs, False, Inl err)
               | (evs, Inr a) \<Rightarrow> (evs, False, Inr (a, s0, s1, s2 @ ''/'' @ s3))))"
    by (rule parseRequestPath_four)
next
  assume a: "parseAccess env ''ACCESS'' = (evs', Inr access)"
  show "parseRequestPath env ''/ACCESS/bucket/a/b.jpg'' =
          (evs', False, Inr (access, ''ACCESS'', ''bucket'', ''a/b.jpg''))"
    using parseRequestPath_four [OF split_ex1, of env] a by simp
  show "parseRequestPath env ''/raw/ACCESS/bucket/a/b.jpg'' =
          (evs', True, Inr (access, ''ACCESS'', ''bucket'', ''a/b.jpg''))"
    using parseRequestPath_four [OF split_ex2, of env] a by simp
qed

theorem parseRequestPath_four_segments_witness:
  "SplitN (TrimPrefix ''/raw/ACCESS/bucket/a/b.jpg'' ''/'') ''/'' 4 = [''raw'', ''ACCESS'', ''bucket'', ''a/b.jpg'']
   \<and> SplitN (TrimPrefix ''/ACCESS/bucket/a/b.jpg'' ''/'') ''/'' 4 = [''ACCESS'', ''bucket'', ''a'', ''b.jpg'']
   \<and> parseAccess exampleEnv ''ACCESS'' = ([EvParseAccess ''ACCESS''], Inr (AccessRef 0))
   \<and> parseRequestPath exampleEnv ''/ACCESS/bucket/a/b.jpg'' =
        ([EvParseAccess ''ACCESS''], False, Inr (AccessRef 0, ''ACCESS'', ''bucket'', ''a/b.jpg''))
   \<and> parseRequestPath exampleEnv ''/raw/ACCESS/bucket/a/b.jpg'' =
        ([EvParseAccess ''ACCESS''], True, Inr (AccessRef 0, ''ACCESS'', ''bucket'', ''a/b.jpg''))"
  using parseRequestPath_four_segments [of "''/raw/ACCESS/bucket/a/b.jpg''" "''raw''" "''ACCESS''" "''bucket''" "''a/b.jpg''" exampleEnv "[EvParseAccess ''ACCESS'']" "AccessRef 0"]
    split_ex1 split_ex2 parseAccess_example
  by simp

text \<open>
  C7: when the path, without one leading \<open>/\<close>, is a single segment, \<open>parseRequestPath\<close>
  fails with "missing access" (\<open>MissingCredential\<close>) if the segment is empty and with
  "missing bucket" (\<open>MissingBucket\<close>) otherwise, without decoding anything: \<open>/\<close> and
  \<open>/ACCESS\<close> are the two examples.
\<close>

theorem parseRequestPath_single_segment:
  "(SplitN (TrimPrefix p ''/'') ''/'' 4 = [seg] \<longrightarrow>
      parseRequestPath env p =
        ([], False, Inl (ErrsNew (if seg = [] then ''missing access'' else ''missing bucket''))))
   \<and> parseRequestPath env ''/'' = ([], False, Inl (ErrsNew ''missing access''))
   \<and> parseRequestPath env ''/ACCESS'' = ([], False, Inl (ErrsNew ''missing bucket''))"
  using parseRequestPath_one [OF split_ex3, of env] parseRequestPath_one [OF split_ex4, of env]
  by (auto simp: parseRequestPath_one)

theorem parseRequestPath_single_segment_witness:
  "SplitN (TrimPrefix ''/ACCESS'' ''/'') ''/'' 4 = [''ACCESS'']
   \<and> parseRequestPath exampleEnv ''/ACCESS'' = ([], False, Inl (ErrsNew ''missing bucket''))"
  using parseRequestPath_single_segment [of "''/ACCESS''" "''ACCESS''" exampleEnv] split_ex3
  by simp

section \<open>The bucket of a routing result\<close>

lemma SplitN_token: "CHR ''/'' \<notin> set t \<Longrightarrow> SplitN t ''/'' 4 = [t]"
  by (simp add: SplitN_def numeral_eq_Suc Index_single_notin)

lemma Index_token_slash: "CHR ''/'' \<notin> set t \<Longrightarrow> Index (t @ ''/'') ''/'' = Some (length t)"
  by (induction t) (auto simp: HasPrefix_def)

lemma SplitN_token_slash: "CHR ''/'' \<notin> set t \<Longrightarrow> SplitN (t @ ''/'') ''/'' 4 = [t, []]"
  by (simp add: SplitN_def numeral_eq_Suc Index_token_slash)

lemma servePrefix_lists:
  "EvListObjects project bucket realPrefix
     \<in> set (fst (servePrefix env project root title bucket realPrefix visiblePrefix))"
  by (simp add: servePrefix_def Let_def split: prod.splits option.splits)

lemma HasSuffix_append_slash: "HasSuffix (s @ ''/'') ''/''"
  by (simp add: HasSuffix_def)

lemma parseRequestPath_two:
  assumes "SplitN (TrimPrefix p ''/'') ''/'' 4 = [s0, s1]"
  shows "parseRequestPath env p =
           (case parseAccess env s0 of
              (evs, Inl err) \<Rightarrow> (evs, False, Inl err)
            | (evs, Inr a) \<Rightarrow> (evs, False, Inr (a, s0, s1, [])))"
  using assms by (simp add: parseRequestPath_def split: prod.splits sum.splits)


lemma compareHosts_example_same: "compareHosts ''gateway.test'' ''gateway.test'' = (True, None)"
  by code_simp


text \<open>
  C3 does not hold of the code: a routing result of \<open>parseRequestPath\<close> can carry the empty
  bucket. The function refuses a path without a bucket segment (\<open>/token\<close> fails with
  "missing bucket"), but the same path closed with a slash, \<open>/token/\<close>, splits into the token
  and an empty second segment, and is returned, for every credential that decodes, as a
  non-error result with the empty bucket and the empty key. A GET of that path on the base
  host then asks the storage network to list the bucket named by the empty string.
\<close>

theorem parseRequestPath_accepts_empty_bucket:
  "(token \<noteq> [] \<and> CHR ''/'' \<notin> set token \<and> parseAccess env token = (evs, Inr access) \<longrightarrow>
      parseRequestPath env (''/'' @ token) = ([], False, Inl (ErrsNew ''missing bucket''))
      \<and> parseRequestPath env (''/'' @ token @ ''/'') = (evs, False, Inr (access, token, [], [])))
   \<and> (token \<noteq> [] \<and> CHR ''/'' \<notin> set token \<and> parseAccess env token = (evs, Inr access)
       \<and> uplink_OpenProject env access = Inr p
       \<and> compareHosts (Host r) (url_Host (urlBase handler)) = (True, None)
       \<and> Method r = ''GET'' \<and> Path r = ''/'' @ token @ ''/'' \<longrightarrow>
      EvListObjects p [] [] \<in> set (fst (serveHTTP env handler r)))"
proof (intro conjI impI)
  assume a: "token \<noteq> [] \<and> CHR ''/'' \<notin> set token \<and> parseAccess env token = (evs, Inr access)"
  then have s1: "SplitN (TrimPrefix (''/'' @ token) ''/'') ''/'' 4 = [token]"
    by (simp add: TrimPrefix_single SplitN_token)
  from a show "parseRequestPath env (''/'' @ token) = ([], False, Inl (ErrsNew ''missing bucket''))"
    using parseRequestPath_one [OF s1, of env] by simp
  from a have s2: "SplitN (TrimPrefix (''/'' @ token @ ''/'') ''/'') ''/'' 4 = [token, []]"
    by (simp add: TrimPrefix_single SplitN_token_slash)
  from a show "parseRequestPath env (''/'' @ token @ ''/'') = (evs, False, Inr (access, token, [], []))"
    using parseRequestPath_two [OF s2, of env] by simp
next
  assume a: "token \<noteq> [] \<and> CHR ''/'' \<notin> set token \<and> parseAccess env token = (evs, Inr access)
       \<and> uplink_OpenProject env access = Inr p
       \<and> compareHosts (Host r) (url_Host (urlBase handler)) = (True, None)
       \<and> Method r = ''GET'' \<and> Path r = ''/'' @ token @ ''/''"
  then have s2: "SplitN (TrimPrefix (''/'' @ token @ ''/'') ''/'') ''/'' 4 = [token, []]"
    by (simp add: TrimPrefix_single SplitN_token_slash)
  from a have prp: "parseRequestPath env (Path r) = (evs, False, Inr (access, token, [], []))"
    using parseRequestPath_two [OF s2, of env] by simp
  from a have suf: "HasSuffix (Path r) ''/''"
    using HasSuffix_append_slash [of "''/'' @ token"] by simp
  obtain evs2 res where sp:
    "servePrefix env p \<lparr>Prefix = [], URL = ''/'' @ token @ ''/'' @ [] @ ''/''\<rparr> [] [] [] [] = (evs2, res)"
    by (cases "servePrefix env p \<lparr>Prefix = [], URL = ''/'' @ token @ ''/'' @ [] @ ''/''\<rparr> [] [] [] []")
  have mem: "EvListObjects p [] [] \<in> set evs2"
    using servePrefix_lists [of p "[]" "[]" env "\<lparr>Prefix = [], URL = ''/'' @ token @ ''/'' @ [] @ ''/''\<rparr>" "[]" "[]"] sp
    by simp
  from a have "Method r \<noteq> ''HEAD''" by simp
  with a prp suf sp mem show "EvListObjects p [] [] \<in> set (fst (serveHTTP env handler r))"
    by (auto simp: serveHTTP_def handleTraditional_def traditionalBody_def
        split: outcome.splits option.splits)
qed

theorem parseRequestPath_accepts_empty_bucket_witness:
  "parseAccess exampleEnv ''ACCESS'' = ([EvParseAccess ''ACCESS''], Inr (AccessRef 0))
   \<and> parseRequestPath exampleEnv ''/ACCESS'' = ([], False, Inl (ErrsNew ''missing bucket''))
   \<and> parseRequestPath exampleEnv ''/ACCESS/'' =
       ([EvParseAccess ''ACCESS''], False, Inr (AccessRef 0, ''ACCESS'', [], []))
   \<and> EvListObjects (ProjectRef 0) [] []
       \<in> set (fst (serveHTTP exampleEnv exampleHandler
                     \<lparr>Method = ''GET'', Host = ''gateway.test'', Path = ''/ACCESS/'', QueryKeys = []\<rparr>))"
  using parseRequestPath_accepts_empty_bucket [where token = "''ACCESS''" and env = exampleEnv
      and evs = "[EvParseAccess ''ACCESS'']" and access = "AccessRef 0" and p = "ProjectRef 0"
      and handler = exampleHandler
      and r = "\<lparr>Method = ''GET'', Host = ''gateway.test'', Path = ''/ACCESS/'', QueryKeys = []\<rparr>"]
    parseAccess_example compareHosts_example_same
  by (simp add: exampleEnv_def exampleHandler_def)

section \<open>Claims about the host classifier\<close>























section \<open>Claims about the router\<close>




















lemma exampleEnv_simps:
  "uplink_OpenProject exampleEnv a = Inr (ProjectRef 0)"
  "project_Close exampleEnv p = None"
  "project_StatObject exampleEnv p b k =
     (if b = ''bucket'' \<and> k = ''a/b.jpg'' then Inr exampleObject
      else Inl (Collab ''object not found'' [ErrObjectNotFound]))"
  "project_ListObjects exampleEnv p b pre =
     (if b = ''bucket'' \<and> pre = ''a/'' then ([exampleObject], None) else ([], None))"
  "templates_ExecuteTemplate exampleEnv n d = None"
  "txtRecords_fetchAccessForHost exampleEnv h =
     (if h = ''site.test'' then Inr (AccessRef 0, ''bucket/a/'')
      else Inl (Collab ''no TXT record'' []))"
  "memory_Base10String exampleEnv i = ''3 B''"
  "path_Join exampleEnv x y = x @ y"
  "url_String exampleEnv u = url_Scheme u @ ''://'' @ url_Host u @ url_Path u"
  by (simp_all add: exampleEnv_def)



lemma site_test_key: "determineBucketAndObjectKey ''bucket/a/'' ''/b.jpg'' = (''bucket'', ''a/b.jpg'')"
  by code_simp




section \<open>HEAD requests in the traditional flow\<close>







section \<open>Claims about the custom-domain flow\<close>

lemma handleHostingService_bareHost:
  "handleHostingService env handler r =
     (case bareHost (Host r) of
        Inl err \<Rightarrow>
          ([EvLogError ''unable to handle request'' err,
            EvHttpError ''unable to handle request'' 500],
           Return (Some err))
      | Inr host \<Rightarrow>
          (case txtRecords_fetchAccessForHost env host of
             Inl err \<Rightarrow>
               ([EvFetchAccessForHost host, EvLogError ''unable to handle request'' err,
                 EvHttpError ''unable to handle request'' 500],
                Return (Some err))
           | Inr (access, root) \<Rightarrow>
               (case uplink_OpenProject env access of
                  Inl err \<Rightarrow>
                    (EvFetchAccessForHost host # EvOpenProject access #
                       handleUplinkErr env ''open project'' err,
                     Return (Some err))
                | Inr project \<Rightarrow>
                    (case hostingBody env r host project root of
                       (evs, res) \<Rightarrow>
                         (EvFetchAccessForHost host # EvOpenProject access # evs @
                            deferredClose env project,
                          res)))))"
  by (simp add: handleHostingService_def bareHost_def)

lemma handleHostingService_opened:
  assumes "bareHost (Host r) = Inr host"
    and "txtRecords_fetchAccessForHost env host = Inr (access, root)"
    and "uplink_OpenProject env access = Inr project"
  shows "handleHostingService env handler r =
           (EvFetchAccessForHost host # EvOpenProject access #
              fst (hostingBody env r host project root) @ deferredClose env project,
            snd (hostingBody env r host project root))"
  using assms by (simp add: handleHostingService_bareHost split: prod.splits)

lemma handleUplinkErr_no_calls:
  "EvStatObject p b k \<notin> set (handleUplinkErr env action err)"
  "EvListObjects p b k \<notin> set (handleUplinkErr env action err)"
  by (auto simp: handleUplinkErr_def notFoundPage_def split: option.splits)

lemma deferredClose_no_calls:
  "EvStatObject p b k \<notin> set (deferredClose env q)"
  "EvListObjects p b k \<notin> set (deferredClose env q)"
  by (auto simp: deferredClose_def split: option.splits)

lemma servePrefix_lists_pair:
  "servePrefix env q root title bucket realPrefix visiblePrefix = (evs, res)
     \<Longrightarrow> EvListObjects q bucket realPrefix \<in> set evs"
  using servePrefix_lists [of q bucket realPrefix env root title visiblePrefix] by simp

lemma hostingIndexOrListing_cases:
  "(project_StatObject env project bucket (key @ ''index.html'') = Inr obj \<longrightarrow>
      hostingIndexOrListing env r host project bucket key =
        ([EvStatObject project bucket (key @ ''index.html''),
          EvServeContent (key @ ''index.html'') obj project bucket], Return None))
   \<and> (project_StatObject env project bucket (key @ ''index.html'') = Inl err
       \<and> \<not> errorsIs err ErrObjectNotFound \<longrightarrow>
      hostingIndexOrListing env r host project bucket key =
        (EvStatObject project bucket (key @ ''index.html'') #
           handleUplinkErr env ''stat object'' err, Return (Some err)))
   \<and> (project_StatObject env project bucket (key @ ''index.html'') = Inl err
       \<and> errorsIs err ErrObjectNotFound
       \<and> servePrefix env project \<lparr>Prefix = host, URL = ''/''\<rparr> host bucket key
            (TrimPrefix (Path r) ''/'') = (evs, res) \<longrightarrow>
      hostingIndexOrListing env r host project bucket key =
        (EvStatObject project bucket (key @ ''index.html'') # evs @
           (case res of Return (Some e) \<Rightarrow> handleUplinkErr env ''list prefix'' e | _ \<Rightarrow> []),
         res))"
  by (auto simp: hostingIndexOrListing_def Let_def split: outcome.splits option.splits)

lemma hostingIndexOrListing_probe:
  "EvStatObject project bucket (key @ ''index.html'')
     \<in> set (fst (hostingIndexOrListing env r host project bucket key))"
  by (auto simp: hostingIndexOrListing_def Let_def
      split: sum.splits prod.splits outcome.splits option.splits)

lemma hostingIndexOrListing_lists:
  "EvListObjects project bucket key \<in> set (fst (hostingIndexOrListing env r host project bucket key))
     \<longleftrightarrow> (\<exists>e. project_StatObject env project bucket (key @ ''index.html'') = Inl e
              \<and> errorsIs e ErrObjectNotFound)"
  using handleUplinkErr_no_calls(2)
  by (auto simp: hostingIndexOrListing_def Let_def
      split: sum.splits prod.splits outcome.splits option.splits
      dest: servePrefix_lists_pair)

lemma hostingBody_cases:
  assumes "determineBucketAndObjectKey root (Path r) = (bucket, key)"
  shows "(key \<noteq> [] \<and> project_StatObject env project bucket key = Inr obj \<longrightarrow>
            hostingBody env r host project root =
              ([EvStatObject project bucket key, EvServeContent key obj project bucket],
               Return None))
       \<and> (key \<noteq> [] \<and> project_StatObject env project bucket key = Inl err
           \<and> (\<not> HasSuffix key ''/'' \<or> \<not> errorsIs err ErrObjectNotFound) \<longrightarrow>
            hostingBody env r host project root =
              (EvStatObject project bucket key # handleUplinkErr env ''stat object'' err,
               Return (Some err)))
       \<and> (key = [] \<or> HasSuffix key ''/'' \<and> project_StatObject env project bucket key = Inl err
                        \<and> errorsIs err ErrObjectNotFound \<longrightarrow>
            hostingBody env r host project root =
              ((if key = [] then [] else [EvStatObject project bucket key]) @
                 fst (hostingIndexOrListing env r host project bucket key),
               snd (hostingIndexOrListing env r host project bucket key)))"
  using assms by (auto simp: hostingBody_def split: prod.splits)

lemma hostingBody_probe:
  assumes "determineBucketAndObjectKey root (Path r) = (bucket, key)"
  shows "EvStatObject project bucket (key @ ''index.html'')
           \<in> set (fst (hostingBody env r host project root))
         \<longleftrightarrow> (key = [] \<or> HasSuffix key ''/''
                \<and> (\<exists>e. project_StatObject env project bucket key = Inl e
                          \<and> errorsIs e ErrObjectNotFound))"
  using assms handleUplinkErr_no_calls(1) hostingIndexOrListing_probe [of project bucket key env r host]
  by (auto simp: hostingBody_def split: prod.splits sum.splits)

lemma hostingBody_lists:
  assumes "determineBucketAndObjectKey root (Path r) = (bucket, key)"
  shows "EvListObjects project bucket key \<in> set (fst (hostingBody env r host project root))
         \<longleftrightarrow> (key = [] \<or> HasSuffix key ''/''
                \<and> (\<exists>e. project_StatObject env project bucket key = Inl e
                          \<and> errorsIs e ErrObjectNotFound))
             \<and> (\<exists>e. project_StatObject env project bucket (key @ ''index.html'') = Inl e
                      \<and> errorsIs e ErrObjectNotFound)"
  using assms handleUplinkErr_no_calls(2)
    hostingIndexOrListing_lists [of project bucket key env r host]
  by (auto simp: hostingBody_def split: prod.splits sum.splits)

lemma indexEnv_simps:
  "uplink_OpenProject indexEnv a = Inr (ProjectRef 0)"
  "project_Close indexEnv p = None"
  "project_StatObject indexEnv p b k =
     (if b = ''bucket'' \<and> k = ''a/index.html'' then Inr indexObject
      else if HasSuffix k ''/'' then Inl (Collab ''object not found'' [ErrObjectNotFound])
      else Inl (Collab ''permission denied'' []))"
  "txtRecords_fetchAccessForHost indexEnv h =
     (if h = ''site.test'' then Inr (AccessRef 0, ''bucket/a/'')
      else Inl (Collab ''no TXT record'' []))"
  by (simp_all add: indexEnv_def exampleEnv_def)

lemma site_test_bareHost: "bareHost ''site.test'' = Inr ''site.test''"
  by code_simp

lemma site_test_keys:
  "determineBucketAndObjectKey ''bucket/a/'' ''/'' = (''bucket'', ''a/'')"
  "determineBucketAndObjectKey ''bucket/a/'' ''/sub/'' = (''bucket'', ''a/sub/'')"
  "determineBucketAndObjectKey ''bucket/a/'' ''/x'' = (''bucket'', ''a/x'')"
  "determineBucketAndObjectKey ''bucket/a/'' ''/missing.jpg'' = (''bucket'', ''a/missing.jpg'')"
  by code_simp+

lemma site_test_suffixes:
  "HasSuffix ''a/'' ''/''" "HasSuffix ''a/sub/'' ''/''" "\<not> HasSuffix ''a/x'' ''/''"
  "\<not> HasSuffix ''a/sub/index.html'' ''/''" "\<not> HasSuffix ''a/b.jpg'' ''/''"
  "\<not> HasSuffix ''a/index.html'' ''/''" "\<not> HasSuffix ''a/missing.jpg'' ''/''"
  by code_simp+

lemma site_test_listing:
  "servePrefix exampleEnv (ProjectRef 0) \<lparr>Prefix = ''site.test'', URL = ''/''\<rparr> ''site.test''
     ''bucket'' ''a/'' (TrimPrefix ''/'' ''/'') =
   ([EvListObjects (ProjectRef 0) ''bucket'' ''a/'',
     EvExecuteTemplate ''prefix-listing.html''
       (PrefixListing ''site.test'' [\<lparr>Prefix = ''site.test'', URL = ''/''\<rparr>]
          [ListingObject ''b.jpg'' ''3 B'' False])],
    Return None)"
  by (simp add: servePrefix_def exampleEnv_simps exampleObject_def TrimPrefix_def HasPrefix_def)

text \<open>
  C9: in the custom-domain flow, once the host is resolved and the project is open, with
  \<open>(bucket, key)\<close> the mapped pair: if \<open>key\<close> is not empty the object at \<open>key\<close> is looked up
  first and served when it exists; a failure of that lookup is surfaced at once (through
  \<open>handleUplinkErr\<close>, returning the error) unless \<open>key\<close> ends in \<open>/\<close> and the failure is
  "object not found". Exactly when \<open>key\<close> is empty, or ends in \<open>/\<close> and was not found, the
  handler probes \<open>key + "index.html"\<close>: it serves that object when it exists and surfaces
  any failure other than "object not found". Exactly when that probe too reports "object
  not found" the prefix \<open>key\<close> is listed.
\<close>

theorem hosting_object_then_index_then_listing:
  "bareHost (Host r) = Inr host
   \<and> txtRecords_fetchAccessForHost env host = Inr (access, root)
   \<and> uplink_OpenProject env access = Inr project
   \<and> determineBucketAndObjectKey root (Path r) = (bucket, key) \<longrightarrow>
     (key \<noteq> [] \<and> project_StatObject env project bucket key = Inr obj \<longrightarrow>
        handleHostingService env handler r =
          ([EvFetchAccessForHost host, EvOpenProject access, EvStatObject project bucket key,
            EvServeContent key obj project bucket] @ deferredClose env project,
           Return None))
     \<and> (key \<noteq> [] \<and> project_StatObject env project bucket key = Inl err
         \<and> (\<not> HasSuffix key ''/'' \<or> \<not> errorsIs err ErrObjectNotFound) \<longrightarrow>
        handleHostingService env handler r =
          ([EvFetchAccessForHost host, EvOpenProject access, EvStatObject project bucket key] @
             handleUplinkErr env ''stat object'' err @ deferredClose env project,
           Return (Some err)))
     \<and> ((key = [] \<or> HasSuffix key ''/'' \<and> project_StatObject env project bucket key = Inl err
                      \<and> errorsIs err ErrObjectNotFound)
         \<and> project_StatObject env project bucket (key @ ''index.html'') = Inr iobj \<longrightarrow>
        handleHostingService env handler r =
          ([EvFetchAccessForHost host, EvOpenProject access] @
             (if key = [] then [] else [EvStatObject project bucket key]) @
             [EvStatObject project bucket (key @ ''index.html''),
              EvServeContent (key @ ''index.html'') iobj project bucket] @
             deferredClose env project,
           Return None))
     \<and> ((key = [] \<or> HasSuffix key ''/'' \<and> project_StatObject env project bucket key = Inl err
                      \<and> errorsIs err ErrObjectNotFound)
         \<and> project_StatObject env project bucket (key @ ''index.html'') = Inl ierr
         \<and> \<not> errorsIs ierr ErrObjectNotFound \<longrightarrow>
        handleHostingService env handler r =
          ([EvFetchAccessForHost host, EvOpenProject access] @
             (if key = [] then [] else [EvStatObject project bucket key]) @
             [EvStatObject project bucket (key @ ''index.html'')] @
             handleUplinkErr env ''stat object'' ierr @ deferredClose env project,
           Return (Some ierr)))
     \<and> ((key = [] \<or> HasSuffix key ''/'' \<and> project_StatObject env project bucket key = Inl err
                      \<and> errorsIs err ErrObjectNotFound)
         \<and> project_StatObject env project bucket (key @ ''index.html'') = Inl ierr
         \<and> errorsIs ierr ErrObjectNotFound
         \<and> servePrefix env project \<lparr>Prefix = host, URL = ''/''\<rparr> host bucket key
              (TrimPrefix (Path r) ''/'') = (evs, res) \<longrightarrow>
        handleHostingService env handler r =
          ([EvFetchAccessForHost host, EvOpenProject access] @
             (if key = [] then [] else [EvStatObject project bucket key]) @
             [EvStatObject project bucket (key @ ''index.html'')] @ evs @
             (case res of Return (Some e) \<Rightarrow> handleUplinkErr env ''list prefix'' e | _ \<Rightarrow> []) @
             deferredClose env project,
           res)
        \<and> EvListObjects project bucket key \<in> set evs)
     \<and> (EvStatObject project bucket (key @ ''index.html'')
           \<in> set (fst (handleHostingService env handler r))
         \<longleftrightarrow> (key = [] \<or> HasSuffix key ''/''
                \<and> (\<exists>e. project_StatObject env project bucket key = Inl e
                          \<and> errorsIs e ErrObjectNotFound)))
     \<and> (EvListObjects project bucket key \<in> set (fst (handleHostingService env handler r))
         \<longleftrightarrow> (key = [] \<or> HasSuffix key ''/''
                \<and> (\<exists>e. project_StatObject env project bucket key = Inl e
                          \<and> errorsIs e ErrObjectNotFound))
             \<and> (\<exists>e. project_StatObject env project bucket (key @ ''index.html'') = Inl e
                      \<and> errorsIs e ErrObjectNotFound))"
proof (intro impI)
  assume a: "bareHost (Host r) = Inr host
   \<and> txtRecords_fetchAccessForHost env host = Inr (access, root)
   \<and> uplink_OpenProject env access = Inr project
   \<and> determineBucketAndObjectKey root (Path r) = (bucket, key)"
  then have d: "determineBucketAndObjectKey root (Path r) = (bucket, key)" by simp
  from a have hs: "handleHostingService env handler r =
           (EvFetchAccessForHost host # EvOpenProject access #
              fst (hostingBody env r host project root) @ deferredClose env project,
            snd (hostingBody env r host project root))"
    by (simp add: handleHostingService_opened)
  note hb = hostingBody_cases [OF d, where env = env and project = project and obj = obj
      and err = err and host = host]
  note hi = hostingIndexOrListing_cases [where env = env and project = project
      and bucket = bucket and key = key and r = r and host = host and obj = iobj and err = ierr
      and evs = evs and res = res]
  note hb3 = hb [THEN conjunct2, THEN conjunct2]
  note hi1 = hi [THEN conjunct1]
  note hi2 = hi [THEN conjunct2, THEN conjunct1]
  note hi3 = hi [THEN conjunct2, THEN conjunct2]
  have c1: "key \<noteq> [] \<and> project_StatObject env project bucket key = Inr obj \<longrightarrow>
        handleHostingService env handler r =
          ([EvFetchAccessForHost host, EvOpenProject access, EvStatObject project bucket key,
            EvServeContent key obj project bucket] @ deferredClose env project,
           Return None)"
    using hb by (simp add: hs)
  have c2: "key \<noteq> [] \<and> project_StatObject env project bucket key = Inl err
         \<and> (\<not> HasSuffix key ''/'' \<or> \<not> errorsIs err ErrObjectNotFound) \<longrightarrow>
        handleHostingService env handler r =
          ([EvFetchAccessForHost host, EvOpenProject access, EvStatObject project bucket key] @
             handleUplinkErr env ''stat object'' err @ deferredClose env project,
           Return (Some err))"
    using hb by (simp add: hs)
  have c3: "(key = [] \<or> HasSuffix key ''/'' \<and> project_StatObject env project bucket key = Inl err
                      \<and> errorsIs err ErrObjectNotFound)
         \<and> project_StatObject env project bucket (key @ ''index.html'') = Inr iobj \<longrightarrow>
        handleHostingService env handler r =
          ([EvFetchAccessForHost host, EvOpenProject access] @
             (if key = [] then [] else [EvStatObject project bucket key]) @
             [EvStatObject project bucket (key @ ''index.html''),
              EvServeContent (key @ ''index.html'') iobj project bucket] @
             deferredClose env project,
           Return None)"
  proof (intro impI)
    assume h: "(key = [] \<or> HasSuffix key ''/'' \<and> project_StatObject env project bucket key = Inl err
                      \<and> errorsIs err ErrObjectNotFound)
         \<and> project_StatObject env project bucket (key @ ''index.html'') = Inr iobj"
    with hb3 have b: "hostingBody env r host project root =
              ((if key = [] then [] else [EvStatObject project bucket key]) @
                 fst (hostingIndexOrListing env r host project bucket key),
               snd (hostingIndexOrListing env r host project bucket key))" by blast
    from h hi1 have i: "hostingIndexOrListing env r host project bucket key =
        ([EvStatObject project bucket (key @ ''index.html''),
          EvServeContent (key @ ''index.html'') iobj project bucket], Return None)" by blast
    show "handleHostingService env handler r =
          ([EvFetchAccessForHost host, EvOpenProject access] @
             (if key = [] then [] else [EvStatObject project bucket key]) @
             [EvStatObject project bucket (key @ ''index.html''),
              EvServeContent (key @ ''index.html'') iobj project bucket] @
             deferredClose env project,
           Return None)"
      by (simp add: hs b i)
  qed
  have c4: "(key = [] \<or> HasSuffix key ''/'' \<and> project_StatObject env project bucket key = Inl err
                      \<and> errorsIs err ErrObjectNotFound)
         \<and> project_StatObject env project bucket (key @ ''index.html'') = Inl ierr
         \<and> \<not> errorsIs ierr ErrObjectNotFound \<longrightarrow>
        handleHostingService env handler r =
          ([EvFetchAccessForHost host, EvOpenProject access] @
             (if key = [] then [] else [EvStatObject project bucket key]) @
             [EvStatObject project bucket (key @ ''index.html'')] @
             handleUplinkErr env ''stat object'' ierr @ deferredClose env project,
           Return (Some ierr))"
  proof (intro impI)
    assume h: "(key = [] \<or> HasSuffix key ''/'' \<and> project_StatObject env project bucket key = Inl err
                      \<and> errorsIs err ErrObjectNotFound)
         \<and> project_StatObject env project bucket (key @ ''index.html'') = Inl ierr
         \<and> \<not> errorsIs ierr ErrObjectNotFound"
    with hb3 have b: "hostingBody env r host project root =
              ((if key = [] then [] else [EvStatObject project bucket key]) @
                 fst (hostingIndexOrListing env r host project bucket key),
               snd (hostingIndexOrListing env r host project bucket key))" by blast
    from h hi2 have i: "hostingIndexOrListing env r host project bucket key =
        (EvStatObject project bucket (key @ ''index.html'') #
           handleUplinkErr env ''stat object'' ierr, Return (Some ierr))" by blast
    show "handleHostingService env handler r =
          ([EvFetchAccessForHost host, EvOpenProject access] @
             (if key = [] then [] else [EvStatObject project bucket key]) @
             [EvStatObject project bucket (key @ ''index.html'')] @
             handleUplinkErr env ''stat object'' ierr @ deferredClose env project,
           Return (Some ierr))"
      by (simp add: hs b i)
  qed
  have c5: "(key = [] \<or> HasSuffix key ''/'' \<and> project_StatObject env project bucket key = Inl err
                      \<and> errorsIs err ErrObjectNotFound)
         \<and> project_StatObject env project bucket (key @ ''index.html'') = Inl ierr
         \<and> errorsIs ierr ErrObjectNotFound
         \<and> servePrefix env project \<lparr>Prefix = host, URL = ''/''\<rparr> host bucket key
              (TrimPrefix (Path r) ''/'') = (evs, res) \<longrightarrow>
        handleHostingService env handler r =
          ([EvFetchAccessForHost host, EvOpenProject access] @
             (if key = [] then [] else [EvStatObject project bucket key]) @
             [EvStatObject project bucket (key @ ''index.html'')] @ evs @
             (case res of Return (Some e) \<Rightarrow> handleUplinkErr env ''list prefix'' e | _ \<Rightarrow> []) @
             deferredClose env project,
           res)
        \<and> EvListObjects project bucket key \<in> set evs"
  proof (intro impI)
    assume h: "(key = [] \<or> HasSuffix key ''/'' \<and> project_StatObject env project bucket key = Inl err
                      \<and> errorsIs err ErrObjectNotFound)
         \<and> project_StatObject env project bucket (key @ ''index.html'') = Inl ierr
         \<and> errorsIs ierr ErrObjectNotFound
         \<and> servePrefix env project \<lparr>Prefix = host, URL = ''/''\<rparr> host bucket key
              (TrimPrefix (Path r) ''/'') = (evs, res)"
    with hb3 have b: "hostingBody env r host project root =
              ((if key = [] then [] else [EvStatObject project bucket key]) @
                 fst (hostingIndexOrListing env r host project bucket key),
               snd (hostingIndexOrListing env r host project bucket key))" by blast
    from h hi3 have i: "hostingIndexOrListing env r host project bucket key =
        (EvStatObject project bucket (key @ ''index.html'') # evs @
           (case res of Return (Some e) \<Rightarrow> handleUplinkErr env ''list prefix'' e | _ \<Rightarrow> []),
         res)" by blast
    from h have m: "EvListObjects project bucket key \<in> set evs"
      using servePrefix_lists_pair by blast
    have "handleHostingService env handler r =
          ([EvFetchAccessForHost host, EvOpenProject access] @
             (if key = [] then [] else [EvStatObject project bucket key]) @
             [EvStatObject project bucket (key @ ''index.html'')] @ evs @
             (case res of Return (Some e) \<Rightarrow> handleUplinkErr env ''list prefix'' e | _ \<Rightarrow> []) @
             deferredClose env project,
           res)"
      by (simp add: hs b i)
    with m show "handleHostingService env handler r =
          ([EvFetchAccessForHost host, EvOpenProject access] @
             (if key = [] then [] else [EvStatObject project bucket key]) @
             [EvStatObject project bucket (key @ ''index.html'')] @ evs @
             (case res of Return (Some e) \<Rightarrow> handleUplinkErr env ''list prefix'' e | _ \<Rightarrow> []) @
             deferredClose env project,
           res)
        \<and> EvListObjects project bucket key \<in> set evs"
      by (rule conjI [rotated])
  qed
  have c6: "EvStatObject project bucket (key @ ''index.html'')
           \<in> set (fst (handleHostingService env handler r))
         \<longleftrightarrow> (key = [] \<or> HasSuffix key ''/''
                \<and> (\<exists>e. project_StatObject env project bucket key = Inl e
                          \<and> errorsIs e ErrObjectNotFound))"
    using hostingBody_probe [OF d, where project = project and env = env and host = host]
      deferredClose_no_calls(1)
    by (simp add: hs)
  have c7: "EvListObjects project bucket key \<in> set (fst (handleHostingService env handler r))
         \<longleftrightarrow> (key = [] \<or> HasSuffix key ''/''
                \<and> (\<exists>e. project_StatObject env project bucket key = Inl e
                          \<and> errorsIs e ErrObjectNotFound))
             \<and> (\<exists>e. project_StatObject env project bucket (key @ ''index.html'') = Inl e
                      \<and> errorsIs e ErrObjectNotFound)"
    using hostingBody_lists [OF d, where project = project and env = env and host = host]
      deferredClose_no_calls(2)
    by (simp add: hs)
  from c1 c2 c3 c4 c5 c6 c7 show "(key \<noteq> [] \<and> project_StatObject env project bucket key = Inr obj \<longrightarrow>
        handleHostingService env handler r =
          ([EvFetchAccessForHost host, EvOpenProject access, EvStatObject project bucket key,
            EvServeContent key obj project bucket] @ deferredClose env project,
           Return None))
     \<and> (key \<noteq> [] \<and> project_StatObject env project bucket key = Inl err
         \<and> (\<not> HasSuffix key ''/'' \<or> \<not> errorsIs err ErrObjectNotFound) \<longrightarrow>
        handleHostingService env handler r =
          ([EvFetchAccessForHost host, EvOpenProject access, EvStatObject project bucket key] @
             handleUplinkErr env ''stat object'' err @ deferredClose env project,
           Return (Some err)))
     \<and> ((key = [] \<or> HasSuffix key ''/'' \<and> project_StatObject env project bucket key = Inl err
                      \<and> errorsIs err ErrObjectNotFound)
         \<and> project_StatObject env project bucket (key @ ''index.html'') = Inr iobj \<longrightarrow>
        handleHostingService env handler r =
          ([EvFetchAccessForHost host, EvOpenProject access] @
             (if key = [] then [] else [EvStatObject project bucket key]) @
             [EvStatObject project bucket (key @ ''index.html''),
              EvServeContent (key @ ''index.html'') iobj project bucket] @
             deferredClose env project,
           Return None))
     \<and> ((key = [] \<or> HasSuffix key ''/'' \<and> project_StatObject env project bucket key = Inl err
                      \<and> errorsIs err ErrObjectNotFound)
         \<and> project_StatObject env project bucket (key @ ''index.html'') = Inl ierr
         \<and> \<not> errorsIs ierr ErrObjectNotFound \<longrightarrow>
        handleHostingService env handler r =
          ([EvFetchAccessForHost host, EvOpenProject access] @
             (if key = [] then [] else [EvStatObject project bucket key]) @
             [EvStatObject project bucket (key @ ''index.html'')] @
             handleUplinkErr env ''stat object'' ierr @ deferredClose env project,
           Return (Some ierr)))
     \<and> ((key = [] \<or> HasSuffix key ''/'' \<and> project_StatObject env project bucket key = Inl err
                      \<and> errorsIs err ErrObjectNotFound)
         \<and> project_StatObject env project bucket (key @ ''index.html'') = Inl ierr
         \<and> errorsIs ierr ErrObjectNotFound
         \<and> servePrefix env project \<lparr>Prefix = host, URL = ''/''\<rparr> host bucket key
              (TrimPrefix (Path r) ''/'') = (evs, res) \<longrightarrow>
        handleHostingService env handler r =
          ([EvFetchAccessForHost host, EvOpenProject access] @
             (if key = [] then [] else [EvStatObject project bucket key]) @
             [EvStatObject project bucket (key @ ''index.html'')] @ evs @
             (case res of Return (Some e) \<Rightarrow> handleUplinkErr env ''list prefix'' e | _ \<Rightarrow> []) @
             deferredClose env project,
           res)
        \<and> EvListObjects project bucket key \<in> set evs)
     \<and> (EvStatObject project bucket (key @ ''index.html'')
           \<in> set (fst (handleHostingService env handler r))
         \<longleftrightarrow> (key = [] \<or> HasSuffix key ''/''
                \<and> (\<exists>e. project_StatObject env project bucket key = Inl e
                          \<and> errorsIs e ErrObjectNotFound)))
     \<and> (EvListObjects project bucket key \<in> set (fst (handleHostingService env handler r))
         \<longleftrightarrow> (key = [] \<or> HasSuffix key ''/''
                \<and> (\<exists>e. project_StatObject env project bucket key = Inl e
                          \<and> errorsIs e ErrObjectNotFound))
             \<and> (\<exists>e. project_StatObject env project bucket (key @ ''index.html'') = Inl e
                      \<and> errorsIs e ErrObjectNotFound))"
    by (intro conjI)
qed

theorem hosting_object_then_index_then_listing_witness:
  "bareHost ''site.test'' = Inr ''site.test''
   \<and> handleHostingService exampleEnv exampleHandler
        \<lparr>Method = ''GET'', Host = ''site.test'', Path = ''/b.jpg'', QueryKeys = []\<rparr> =
      ([EvFetchAccessForHost ''site.test'', EvOpenProject (AccessRef 0),
        EvStatObject (ProjectRef 0) ''bucket'' ''a/b.jpg'',
        EvServeContent ''a/b.jpg'' exampleObject (ProjectRef 0) ''bucket'',
        EvCloseProject (ProjectRef 0)], Return None)
   \<and> handleHostingService exampleEnv exampleHandler
        \<lparr>Method = ''GET'', Host = ''site.test'', Path = ''/missing.jpg'', QueryKeys = []\<rparr> =
      ([EvFetchAccessForHost ''site.test'', EvOpenProject (AccessRef 0),
        EvStatObject (ProjectRef 0) ''bucket'' ''a/missing.jpg'',
        EvWriteHeader 404, EvExecuteTemplate ''404.html'' (Message ''Oops! Object not found.''),
        EvCloseProject (ProjectRef 0)],
       Return (Some (Collab ''object not found'' [ErrObjectNotFound])))
   \<and> handleHostingService exampleEnv exampleHandler
        \<lparr>Method = ''GET'', Host = ''site.test'', Path = ''/'', QueryKeys = []\<rparr> =
      ([EvFetchAccessForHost ''site.test'', EvOpenProject (AccessRef 0),
        EvStatObject (ProjectRef 0) ''bucket'' ''a/'',
        EvStatObject (ProjectRef 0) ''bucket'' ''a/index.html'',
        EvListObjects (ProjectRef 0) ''bucket'' ''a/'',
        EvExecuteTemplate ''prefix-listing.html''
          (PrefixListing ''site.test'' [\<lparr>Prefix = ''site.test'', URL = ''/''\<rparr>]
             [ListingObject ''b.jpg'' ''3 B'' False]),
        EvCloseProject (ProjectRef 0)], Return None)
   \<and> handleHostingService indexEnv exampleHandler
        \<lparr>Method = ''GET'', Host = ''site.test'', Path = ''/'', QueryKeys = []\<rparr> =
      ([EvFetchAccessForHost ''site.test'', EvOpenProject (AccessRef 0),
        EvStatObject (ProjectRef 0) ''bucket'' ''a/'',
        EvStatObject (ProjectRef 0) ''bucket'' ''a/index.html'',
        EvServeContent ''a/index.html'' indexObject (ProjectRef 0) ''bucket'',
        EvCloseProject (ProjectRef 0)], Return None)
   \<and> handleHostingService indexEnv exampleHandler
        \<lparr>Method = ''GET'', Host = ''site.test'', Path = ''/sub/'', QueryKeys = []\<rparr> =
      ([EvFetchAccessForHost ''site.test'', EvOpenProject (AccessRef 0),
        EvStatObject (ProjectRef 0) ''bucket'' ''a/sub/'',
        EvStatObject (ProjectRef 0) ''bucket'' ''a/sub/index.html'',
        EvLogError ''unable to handle request'' (Collab ''permission denied'' []),
        EvHttpError ''unable to handle request'' 500,
        EvCloseProject (ProjectRef 0)],
       Return (Some (Collab ''permission denied'' [])))
   \<and> handleHostingService indexEnv exampleHandler
        \<lparr>Method = ''GET'', Host = ''site.test'', Path = ''/x'', QueryKeys = []\<rparr> =
      ([EvFetchAccessForHost ''site.test'', EvOpenProject (AccessRef 0),
        EvStatObject (ProjectRef 0) ''bucket'' ''a/x'',
        EvLogError ''unable to handle request'' (Collab ''permission denied'' []),
        EvHttpError ''unable to handle request'' 500,
        EvCloseProject (ProjectRef 0)],
       Return (Some (Collab ''permission denied'' [])))"
proof -
  note facts = site_test_bareHost site_test_key site_test_keys site_test_suffixes
    exampleEnv_simps indexEnv_simps deferredClose_def handleUplinkErr_def notFoundPage_def
  have w1: "handleHostingService exampleEnv exampleHandler
        \<lparr>Method = ''GET'', Host = ''site.test'', Path = ''/b.jpg'', QueryKeys = []\<rparr> =
      ([EvFetchAccessForHost ''site.test'', EvOpenProject (AccessRef 0),
        EvStatObject (ProjectRef 0) ''bucket'' ''a/b.jpg'',
        EvServeContent ''a/b.jpg'' exampleObject (ProjectRef 0) ''bucket'',
        EvCloseProject (ProjectRef 0)], Return None)"
    using hosting_object_then_index_then_listing [where env = exampleEnv and handler = exampleHandler
        and r = "\<lparr>Method = ''GET'', Host = ''site.test'', Path = ''/b.jpg'', QueryKeys = []\<rparr>"
        and host = "''site.test''" and access = "AccessRef 0" and root = "''bucket/a/''"
        and project = "ProjectRef 0" and bucket = "''bucket''" and key = "''a/b.jpg''"
        and obj = exampleObject]
    by (simp add: facts)
  have w2: "handleHostingService exampleEnv exampleHandler
        \<lparr>Method = ''GET'', Host = ''site.test'', Path = ''/missing.jpg'', QueryKeys = []\<rparr> =
      ([EvFetchAccessForHost ''site.test'', EvOpenProject (AccessRef 0),
        EvStatObject (ProjectRef 0) ''bucket'' ''a/missing.jpg'',
        EvWriteHeader 404, EvExecuteTemplate ''404.html'' (Message ''Oops! Object not found.''),
        EvCloseProject (ProjectRef 0)],
       Return (Some (Collab ''object not found'' [ErrObjectNotFound])))"
    using hosting_object_then_index_then_listing [where env = exampleEnv and handler = exampleHandler
        and r = "\<lparr>Method = ''GET'', Host = ''site.test'', Path = ''/missing.jpg'', QueryKeys = []\<rparr>"
        and host = "''site.test''" and access = "AccessRef 0" and root = "''bucket/a/''"
        and project = "ProjectRef 0" and bucket = "''bucket''" and key = "''a/missing.jpg''"
        and err = "Collab ''object not found'' [ErrObjectNotFound]"]
    by (simp add: facts)
  have w3: "handleHostingService exampleEnv exampleHandler
        \<lparr>Method = ''GET'', Host = ''site.test'', Path = ''/'', QueryKeys = []\<rparr> =
      ([EvFetchAccessForHost ''site.test'', EvOpenProject (AccessRef 0),
        EvStatObject (ProjectRef 0) ''bucket'' ''a/'',
        EvStatObject (ProjectRef 0) ''bucket'' ''a/index.html'',
        EvListObjects (ProjectRef 0) ''bucket'' ''a/'',
        EvExecuteTemplate ''prefix-listing.html''
          (PrefixListing ''site.test'' [\<lparr>Prefix = ''site.test'', URL = ''/''\<rparr>]
             [ListingObject ''b.jpg'' ''3 B'' False]),
        EvCloseProject (ProjectRef 0)], Return None)"
    using hosting_object_then_index_then_listing [where env = exampleEnv and handler = exampleHandler
        and r = "\<lparr>Method = ''GET'', Host = ''site.test'', Path = ''/'', QueryKeys = []\<rparr>"
        and host = "''site.test''" and access = "AccessRef 0" and root = "''bucket/a/''"
        and project = "ProjectRef 0" and bucket = "''bucket''" and key = "''a/''"
        and err = "Collab ''object not found'' [ErrObjectNotFound]"
        and ierr = "Collab ''object not found'' [ErrObjectNotFound]"
        and evs = "[EvListObjects (ProjectRef 0) ''bucket'' ''a/'',
           EvExecuteTemplate ''prefix-listing.html''
             (PrefixListing ''site.test'' [\<lparr>Prefix = ''site.test'', URL = ''/''\<rparr>]
               [ListingObject ''b.jpg'' ''3 B'' False])]"
        and res = "Return None"]
      site_test_listing
    by (simp add: facts)
  have w4: "handleHostingService indexEnv exampleHandler
        \<lparr>Method = ''GET'', Host = ''site.test'', Path = ''/'', QueryKeys = []\<rparr> =
      ([EvFetchAccessForHost ''site.test'', EvOpenProject (AccessRef 0),
        EvStatObject (ProjectRef 0) ''bucket'' ''a/'',
        EvStatObject (ProjectRef 0) ''bucket'' ''a/index.html'',
        EvServeContent ''a/index.html'' indexObject (ProjectRef 0) ''bucket'',
        EvCloseProject (ProjectRef 0)], Return None)"
    using hosting_object_then_index_then_listing [where env = indexEnv and handler = exampleHandler
        and r = "\<lparr>Method = ''GET'', Host = ''site.test'', Path = ''/'', QueryKeys = []\<rparr>"
        and host = "''site.test''" and access = "AccessRef 0" and root = "''bucket/a/''"
        and project = "ProjectRef 0" and bucket = "''bucket''" and key = "''a/''"
        and err = "Collab ''object not found'' [ErrObjectNotFound]"
        and iobj = indexObject]
    by (simp add: facts)
  have w5: "handleHostingService indexEnv exampleHandler
        \<lparr>Method = ''GET'', Host = ''site.test'', Path = ''/sub/'', QueryKeys = []\<rparr> =
      ([EvFetchAccessForHost ''site.test'', EvOpenProject (AccessRef 0),
        EvStatObject (ProjectRef 0) ''bucket'' ''a/sub/'',
        EvStatObject (ProjectRef 0) ''bucket'' ''a/sub/index.html'',
        EvLogError ''unable to handle request'' (Collab ''permission denied'' []),
        EvHttpError ''unable to handle request'' 500,
        EvCloseProject (ProjectRef 0)],
       Return (Some (Collab ''permission denied'' [])))"
    using hosting_object_then_index_then_listing [where env = indexEnv and handler = exampleHandler
        and r = "\<lparr>Method = ''GET'', Host = ''site.test'', Path = ''/sub/'', QueryKeys = []\<rparr>"
        and host = "''site.test''" and access = "AccessRef 0" and root = "''bucket/a/''"
        and project = "ProjectRef 0" and bucket = "''bucket''" and key = "''a/sub/''"
        and err = "Collab ''object not found'' [ErrObjectNotFound]"
        and ierr = "Collab ''permission denied'' []"]
    by (simp add: facts)
  have w6: "handleHostingService indexEnv exampleHandler
        \<lparr>Method = ''GET'', Host = ''site.test'', Path = ''/x'', QueryKeys = []\<rparr> =
      ([EvFetchAccessForHost ''site.test'', EvOpenProject (AccessRef 0),
        EvStatObject (ProjectRef 0) ''bucket'' ''a/x'',
        EvLogError ''unable to handle request'' (Collab ''permission denied'' []),
        EvHttpError ''unable to handle request'' 500,
        EvCloseProject (ProjectRef 0)],
       Return (Some (Collab ''permission denied'' [])))"
    using hosting_object_then_index_then_listing [where env = indexEnv and handler = exampleHandler
        and r = "\<lparr>Method = ''GET'', Host = ''site.test'', Path = ''/x'', QueryKeys = []\<rparr>"
        and host = "''site.test''" and access = "AccessRef 0" and root = "''bucket/a/''"
        and project = "ProjectRef 0" and bucket = "''bucket''" and key = "''a/x''"
        and err = "Collab ''permission denied'' []"]
    by (simp add: facts)
  from site_test_bareHost w1 w2 w3 w4 w5 w6 show ?thesis by (intro conjI)
qed

end
